theory Spec2Isabelle
  imports Complex_Main "HOL-Library.AList" "HOL-Library.Sublist"
begin

section \<open>Python values, exceptions and the host application\<close>

text \<open>
  The sources are glue code over a host application (Maya): every operation ends in a call
  of the host's command set \<^verbatim>\<open>maya.cmds\<close>, of its API \<^verbatim>\<open>OpenMaya\<close>, or of a
  sibling module of the package that is not among the sources (\<^verbatim>\<open>base\<close>, \<^verbatim>\<open>bind\<close>,
  \<^verbatim>\<open>datatypes\<close>, \<^verbatim>\<open>attr\<close>, \<^verbatim>\<open>exception\<close>, \<^verbatim>\<open>fbx_export_node\<close>). The host and
  these modules are parameters of the model: a record of functions over a host state
  \<open>'h\<close>. The Python functions of the sources are HOL functions over that record; what
  they raise is a value \<open>Inl e\<close> of a sum type, what they mutate is passed and returned.
\<close>

subsection \<open>Values\<close>

type_synonym row4 = "real \<times> real \<times> real \<times> real"

text \<open>
  The Python values the code inspects with \<^verbatim>\<open>isinstance\<close>. \<open>PBase i\<close> is an instance
  of \<^verbatim>\<open>base.Base\<close> that is not a \<^verbatim>\<open>base.Geom\<close> (a node or attribute handle),
  \<open>PGeom i\<close> an instance of \<^verbatim>\<open>base.Geom\<close>; the number \<open>i\<close> identifies the object:
  two handles are equal (\<^verbatim>\<open>==\<close>) exactly when they have the same number.
  \<open>PVector\<close>, \<open>PPoint\<close> and \<open>PMatrix\<close> are instances of the classes of
  \<^verbatim>\<open>datatypes\<close>, given by the components that indexing reads. \<open>POther i\<close> is an object
  of any other class. A set lists its elements in iteration order, each once; its
  elements are hashable, so it holds no list, and the handles of \<^verbatim>\<open>base.Geom\<close> and the
  values of \<^verbatim>\<open>datatypes\<close>, which the conversions below replace by lists, are not among
  them.
\<close>

datatype pyval =
    PNone
  | PBool bool
  | PInt int
  | PFloat real
  | PStr string
  | PList "pyval list"
  | PTuple "pyval list"
  | PSet "pyval list"
  | PDict "(pyval \<times> pyval) list"
  | PBase nat
  | PGeom nat
  | PVector real real real
  | PPoint real real real real
  | PMatrix row4 row4 row4 row4
  | POther nat

text \<open>Keyword arguments: a Python dict with string keys, in insertion order.\<close>

type_synonym kwargs = "(string \<times> pyval) list"

subsection \<open>Exceptions\<close>

text \<open>
  An exception is its class and its \<^verbatim>\<open>args\<close>. Every class here derives from
  \<^verbatim>\<open>Exception\<close>: these are what host commands and Python's own operations raise
  (\<^verbatim>\<open>KeyboardInterrupt\<close> and \<^verbatim>\<open>SystemExit\<close>, which \<^verbatim>\<open>except Exception\<close> lets
  through, are not raised by a command and are not modelled). The messages of the
  exceptions Python itself raises are not modelled: their \<^verbatim>\<open>args\<close> are left empty.
\<close>

datatype exc_class =
    RuntimeError | TypeError | ValueError | IndexError | KeyError | AttributeError
  | MayaAttributeError | MayaNodeError | OtherException string

datatype exc = Exc exc_class "pyval list"

fun exc_class_of :: "exc \<Rightarrow> exc_class" where
  "exc_class_of (Exc c a) = c"

fun exc_args :: "exc \<Rightarrow> pyval list" where
  "exc_args (Exc c a) = a"

subsection \<open>The host\<close>

text \<open>
  \<open>cmds env name args kwargs\<close> is the call \<^verbatim>\<open>cmds.name(*args, **kwargs)\<close>: it returns
  a value or raises, and may change the scene. \<open>mel_eval\<close> is \<^verbatim>\<open>maya.mel.eval\<close> and
  \<open>has_cmd h name\<close> says that \<^verbatim>\<open>getattr(cmds, name, None)\<close> is not \<^verbatim>\<open>None\<close>.
  \<open>base_name\<close> is \<^verbatim>\<open>name()\<close> of a \<^verbatim>\<open>base.Base\<close> instance, \<open>toStringList\<close> the
  method of a \<^verbatim>\<open>base.Geom\<close>, \<open>PyNode\<close> is \<^verbatim>\<open>bind.PyNode\<close>, which returns a handle
  for a name or raises; \<open>Vector\<close>, \<open>Point\<close> and \<open>Matrix\<close> are the constructors of
  \<^verbatim>\<open>datatypes\<close>, applied to their positional arguments. The last four fields are the
  special methods of objects whose classes are not in the sources (and of dicts, for
  indexing): truth value, \<^verbatim>\<open>len\<close>, indexing by a non-negative integer, \<^verbatim>\<open>str\<close>,
  iteration and the \<^verbatim>\<open>in\<close> test for a string.
\<close>

record 'h env =
  cmds :: "string \<Rightarrow> pyval list \<Rightarrow> kwargs \<Rightarrow> 'h \<Rightarrow> (exc + pyval) \<times> 'h"
  mel_eval :: "string \<Rightarrow> 'h \<Rightarrow> (exc + pyval) \<times> 'h"
  has_cmd :: "'h \<Rightarrow> string \<Rightarrow> bool"
  base_name :: "'h \<Rightarrow> nat \<Rightarrow> string"
  toStringList :: "'h \<Rightarrow> nat \<Rightarrow> pyval"
  PyNode :: "'h \<Rightarrow> string \<Rightarrow> exc + pyval"
  Vector :: "pyval list \<Rightarrow> exc + pyval"
  Point :: "pyval list \<Rightarrow> exc + pyval"
  Matrix :: "pyval list \<Rightarrow> exc + pyval"
  truthy_other :: "pyval \<Rightarrow> bool"
  len_other :: "pyval \<Rightarrow> exc + nat"
  getitem_other :: "pyval \<Rightarrow> nat \<Rightarrow> exc + pyval"
  str_other :: "pyval \<Rightarrow> string"
  iter_other :: "pyval \<Rightarrow> exc + pyval list"
  contains_other :: "pyval \<Rightarrow> string \<Rightarrow> exc + bool"

text \<open>
  The calls a run makes to the host, in order. \<open>logged env\<close> is the host \<open>env\<close> that
  also records every command and every MEL evaluation it receives; the code reaches the
  scene through these calls only, so a statement about \<open>logged env\<close> is a statement about
  what the code asks of any host, and in which order.
\<close>

datatype call = CmdCall string "pyval list" kwargs | MelEval string

definition logged :: "'h env \<Rightarrow> ('h \<times> call list) env" where
  "logged env =
     \<lparr> cmds = (\<lambda>name args kwargs (h, tr).
         case cmds env name args kwargs h of
           (r, h1) \<Rightarrow> (r, (h1, tr @ [CmdCall name args kwargs]))),
       mel_eval = (\<lambda>src (h, tr).
         case mel_eval env src h of (r, h1) \<Rightarrow> (r, (h1, tr @ [MelEval src]))),
       has_cmd = (\<lambda>(h, tr). has_cmd env h),
       base_name = (\<lambda>(h, tr). base_name env h),
       toStringList = (\<lambda>(h, tr). toStringList env h),
       PyNode = (\<lambda>(h, tr). PyNode env h),
       Vector = Vector env,
       Point = Point env,
       Matrix = Matrix env,
       truthy_other = truthy_other env,
       len_other = len_other env,
       getitem_other = getitem_other env,
       str_other = str_other env,
       iter_other = iter_other env,
       contains_other = contains_other env \<rparr>"

subsection \<open>Python's built-in operations on values\<close>

text \<open>The truth value of a value (\<^verbatim>\<open>if x\<close>, \<^verbatim>\<open>x or y\<close>, \<^verbatim>\<open>not x\<close>).\<close>

fun py_truthy :: "'h env \<Rightarrow> pyval \<Rightarrow> bool" where
  "py_truthy env PNone = False"
| "py_truthy env (PBool b) = b"
| "py_truthy env (PInt i) = (i \<noteq> 0)"
| "py_truthy env (PFloat r) = (r \<noteq> 0)"
| "py_truthy env (PStr s) = (s \<noteq> [])"
| "py_truthy env (PList xs) = (xs \<noteq> [])"
| "py_truthy env (PTuple xs) = (xs \<noteq> [])"
| "py_truthy env (PSet xs) = (xs \<noteq> [])"
| "py_truthy env (PDict kvs) = (kvs \<noteq> [])"
| "py_truthy env v = truthy_other env v"

text \<open>\<^verbatim>\<open>len(x)\<close>.\<close>

fun py_len :: "'h env \<Rightarrow> pyval \<Rightarrow> exc + nat" where
  "py_len env (PStr s) = Inr (length s)"
| "py_len env (PList xs) = Inr (length xs)"
| "py_len env (PTuple xs) = Inr (length xs)"
| "py_len env (PSet xs) = Inr (length xs)"
| "py_len env (PDict kvs) = Inr (length kvs)"
| "py_len env PNone = Inl (Exc TypeError [])"
| "py_len env (PBool b) = Inl (Exc TypeError [])"
| "py_len env (PInt i) = Inl (Exc TypeError [])"
| "py_len env (PFloat r) = Inl (Exc TypeError [])"
| "py_len env v = len_other env v"

text \<open>
  \<^verbatim>\<open>x[i]\<close> for an index \<open>i \<ge> 0\<close>: a list, a tuple and a string are read by position
  and raise \<^verbatim>\<open>IndexError\<close> out of range; a set, a number and \<^verbatim>\<open>None\<close> are not
  subscriptable; a dict and an object answer by their own \<^verbatim>\<open>__getitem__\<close>.
\<close>

fun py_getitem :: "'h env \<Rightarrow> pyval \<Rightarrow> nat \<Rightarrow> exc + pyval" where
  "py_getitem env (PList xs) i = (if i < length xs then Inr (xs ! i) else Inl (Exc IndexError []))"
| "py_getitem env (PTuple xs) i = (if i < length xs then Inr (xs ! i) else Inl (Exc IndexError []))"
| "py_getitem env (PStr s) i = (if i < length s then Inr (PStr [s ! i]) else Inl (Exc IndexError []))"
| "py_getitem env (PSet xs) i = Inl (Exc TypeError [])"
| "py_getitem env PNone i = Inl (Exc TypeError [])"
| "py_getitem env (PBool b) i = Inl (Exc TypeError [])"
| "py_getitem env (PInt k) i = Inl (Exc TypeError [])"
| "py_getitem env (PFloat r) i = Inl (Exc TypeError [])"
| "py_getitem env v i = getitem_other env v i"

text \<open>\<^verbatim>\<open>str(x)\<close>, as \<^verbatim>\<open>"{}".format(x)\<close> applies it.\<close>

fun py_str :: "'h env \<Rightarrow> pyval \<Rightarrow> string" where
  "py_str env (PStr s) = s"
| "py_str env v = str_other env v"

text \<open>Iteration over a value (\<^verbatim>\<open>for x in v\<close>): the elements, or \<^verbatim>\<open>TypeError\<close>.\<close>

fun py_iter :: "'h env \<Rightarrow> pyval \<Rightarrow> exc + pyval list" where
  "py_iter env (PList xs) = Inr xs"
| "py_iter env (PTuple xs) = Inr xs"
| "py_iter env (PSet xs) = Inr xs"
| "py_iter env (PStr s) = Inr (map (\<lambda>c. PStr [c]) s)"
| "py_iter env (PDict kvs) = Inr (map fst kvs)"
| "py_iter env PNone = Inl (Exc TypeError [])"
| "py_iter env (PBool b) = Inl (Exc TypeError [])"
| "py_iter env (PInt i) = Inl (Exc TypeError [])"
| "py_iter env (PFloat r) = Inl (Exc TypeError [])"
| "py_iter env v = iter_other env v"

text \<open>
  \<^verbatim>\<open>s in v\<close> for a string \<open>s\<close>: membership in a list, tuple or set of plain values
  and among the keys of a dict, the substring test in a string.
\<close>

fun py_contains :: "'h env \<Rightarrow> pyval \<Rightarrow> string \<Rightarrow> exc + bool" where
  "py_contains env (PList xs) s = Inr (PStr s \<in> set xs)"
| "py_contains env (PTuple xs) s = Inr (PStr s \<in> set xs)"
| "py_contains env (PSet xs) s = Inr (PStr s \<in> set xs)"
| "py_contains env (PDict kvs) s = Inr (PStr s \<in> set (map fst kvs))"
| "py_contains env (PStr t) s = Inr (sublist s t)"
| "py_contains env PNone s = Inl (Exc TypeError [])"
| "py_contains env (PBool b) s = Inl (Exc TypeError [])"
| "py_contains env (PInt i) s = Inl (Exc TypeError [])"
| "py_contains env (PFloat r) s = Inl (Exc TypeError [])"
| "py_contains env v s = contains_other env v s"

text \<open>\<^verbatim>\<open>range(0, n, k)\<close> for a step \<open>k > 0\<close>.\<close>

definition py_range :: "nat \<Rightarrow> nat \<Rightarrow> nat list" where
  "py_range n k = map (\<lambda>j. k * j) [0..<(n + k - 1) div k]"

text \<open>A list of results that stops at the first exception, as a comprehension does.\<close>

fun sequence_exc :: "(exc + 'a) list \<Rightarrow> exc + 'a list" where
  "sequence_exc [] = Inr []"
| "sequence_exc (Inl e # rs) = Inl e"
| "sequence_exc (Inr x # rs) = (case sequence_exc rs of Inl e \<Rightarrow> Inl e | Inr xs \<Rightarrow> Inr (x # xs))"

section \<open>The command wrappers of \<^verbatim>\<open>pymaya/cmd.py\<close>\<close>

definition SCOPE_ATTR :: nat where
  "SCOPE_ATTR = 0"

definition SCOPE_NODE :: nat where
  "SCOPE_NODE = 1"

text \<open>
  \<^verbatim>\<open>_obj_to_name\<close>: handles are replaced by their names, inside lists, sets, tuples
  and the values of dicts. \<^verbatim>\<open>arg.__class__([...])\<close> rebuilds the container from the
  list of converted elements; for a set that drops repeated elements.
\<close>

fun obj_to_name :: "'h env \<Rightarrow> 'h \<Rightarrow> pyval \<Rightarrow> pyval" where
  "obj_to_name env h (PList xs) = PList (map (obj_to_name env h) xs)"
| "obj_to_name env h (PSet xs) = PSet (remdups (map (obj_to_name env h) xs))"
| "obj_to_name env h (PTuple xs) = PTuple (map (obj_to_name env h) xs)"
| "obj_to_name env h (PDict kvs) = PDict (map (\<lambda>(k, v). (k, obj_to_name env h v)) kvs)"
| "obj_to_name env h (PGeom i) = toStringList env h i"
| "obj_to_name env h (PBase i) = PStr (base_name env h i)"
| "obj_to_name env h v = v"

text \<open>The same on the tuple of positional arguments and on the dict of keyword arguments.\<close>

definition obj_to_name_args :: "'h env \<Rightarrow> 'h \<Rightarrow> pyval list \<Rightarrow> pyval list" where
  "obj_to_name_args env h args = map (obj_to_name env h) args"

definition obj_to_name_kwargs :: "'h env \<Rightarrow> 'h \<Rightarrow> kwargs \<Rightarrow> kwargs" where
  "obj_to_name_kwargs env h kw = map (\<lambda>(k, v). (k, obj_to_name env h v)) kw"

text \<open>\<^verbatim>\<open>_dt_to_value\<close>: vectors, points and matrices become lists of their components.\<close>

fun dt_to_value :: "pyval \<Rightarrow> pyval" where
  "dt_to_value (PList xs) = PList (map dt_to_value xs)"
| "dt_to_value (PSet xs) = PSet (remdups (map dt_to_value xs))"
| "dt_to_value (PTuple xs) = PTuple (map dt_to_value xs)"
| "dt_to_value (PVector x y z) = PList [PFloat x, PFloat y, PFloat z]"
| "dt_to_value (PPoint x y z w) = PList [PFloat x, PFloat y, PFloat z, PFloat w]"
| "dt_to_value (PMatrix (a0, a1, a2, a3) (b0, b1, b2, b3) (c0, c1, c2, c3) (d0, d1, d2, d3)) =
     PList (map PFloat [a0, a1, a2, a3, b0, b1, b2, b3, c0, c1, c2, c3, d0, d1, d2, d3])"
| "dt_to_value v = v"

text \<open>
  \<^verbatim>\<open>_name_to_obj\<close>: \<^verbatim>\<open>None\<close> stays \<^verbatim>\<open>None\<close>; a list, set or tuple is rebuilt from
  its converted elements; a string is bound to a handle by \<^verbatim>\<open>bind.PyNode\<close> (in
  attribute scope with a known node, the string \<^verbatim>\<open>"node.string"\<close> is bound instead) and
  stays the string when binding raises; anything else is returned as it is.
  \<^verbatim>\<open>known_node\<close> is a value, \<open>PNone\<close> when there is none.
\<close>

fun name_to_obj :: "'h env \<Rightarrow> 'h \<Rightarrow> nat \<Rightarrow> pyval \<Rightarrow> pyval \<Rightarrow> pyval" where
  "name_to_obj env h scope known_node PNone = PNone"
| "name_to_obj env h scope known_node (PList xs) =
     PList (map (name_to_obj env h scope known_node) xs)"
| "name_to_obj env h scope known_node (PSet xs) =
     PSet (remdups (map (name_to_obj env h scope known_node) xs))"
| "name_to_obj env h scope known_node (PTuple xs) =
     PTuple (map (name_to_obj env h scope known_node) xs)"
| "name_to_obj env h scope known_node (PStr s) =
     (if scope = SCOPE_ATTR \<and> known_node \<noteq> PNone then
        (case PyNode env h (py_str env known_node @ ''.'' @ s) of
           Inr obj \<Rightarrow> obj
         | Inl e \<Rightarrow> PStr s)
      else
        (case PyNode env h s of
           Inr obj \<Rightarrow> obj
         | Inl e \<Rightarrow> PStr s))"
| "name_to_obj env h scope known_node v = v"

text \<open>
  \<^verbatim>\<open>isinstance(x, base.Base)\<close>; \<^verbatim>\<open>base.Geom\<close> is taken to derive from
  \<^verbatim>\<open>base.Base\<close>, as every handle class of the package does.
\<close>

fun is_Base :: "pyval \<Rightarrow> bool" where
  "is_Base (PBase i) = True"
| "is_Base (PGeom i) = True"
| "is_Base v = False"

subsection \<open>\<^verbatim>\<open>_pymaya_cmd_wrap\<close>\<close>

text \<open>
  The known node of a wrapped command in attribute scope: the first positional argument,
  or else the first selected object, kept only when it binds to a handle. In node scope
  there is none.
\<close>

definition wrap_known_node ::
  "'h env \<Rightarrow> nat \<Rightarrow> pyval list \<Rightarrow> 'h \<Rightarrow> (exc + pyval) \<times> 'h" where
  "wrap_known_node env scope args h =
     (if scope = SCOPE_ATTR then
        (case (if args \<noteq> [] then (Inr (hd args), h)
               else (case cmds env ''ls'' [] [(''sl'', PBool True)] h of
                       (Inl e, h1) \<Rightarrow> (Inl e, h1)
                     | (Inr sel, h1) \<Rightarrow>
                         (if py_truthy env sel then (py_getitem env sel 0, h1)
                          else (Inr PNone, h1)))) of
           (Inl e, h1) \<Rightarrow> (Inl e, h1)
         | (Inr known_node, h1) \<Rightarrow>
             (if known_node \<noteq> PNone
                 \<and> \<not> is_Base (name_to_obj env h1 SCOPE_NODE PNone known_node)
              then (Inr PNone, h1)
              else (Inr known_node, h1)))
      else (Inr PNone, h))"

text \<open>
  \<open>pymaya_cmd_wrap env name wrap_object scope\<close> is the wrapper that
  \<^verbatim>\<open>_pymaya_cmd_wrap(func, wrap_object, scope)\<close> returns for the host command
  \<^verbatim>\<open>func\<close> of name \<open>name\<close> (\<^verbatim>\<open>func.__name__\<close>), applied to its arguments.
\<close>

definition pymaya_cmd_wrap ::
  "'h env \<Rightarrow> string \<Rightarrow> bool \<Rightarrow> nat \<Rightarrow> pyval list \<Rightarrow> kwargs \<Rightarrow> 'h \<Rightarrow> (exc + pyval) \<times> 'h" where
  "pymaya_cmd_wrap env name wrap_object scope args kwargs h =
     (let args1 = obj_to_name_args env h args;
          kwargs1 = obj_to_name_kwargs env h kwargs
      in case cmds env name args1 kwargs1 h of
           (Inl e, h1) \<Rightarrow> (Inl e, h1)
         | (Inr res, h1) \<Rightarrow>
             (case (if suffix ''Constraint'' name \<and> ''query'' \<notin> set (map fst kwargs1)
                    then (if py_truthy env res then py_getitem env res 0 else Inr PNone)
                    else Inr res) of
                Inl e \<Rightarrow> (Inl e, h1)
              | Inr res1 \<Rightarrow>
                  (let res2 = (if prefix ''list'' name \<and> res1 = PNone then PList [] else res1)
                   in if wrap_object then
                        (case wrap_known_node env scope args1 h1 of
                           (Inl e, h2) \<Rightarrow> (Inl e, h2)
                         | (Inr known_node, h2) \<Rightarrow>
                             (Inr (name_to_obj env h2 scope known_node res2), h2))
                      else (Inr res2, h1))))"

subsection \<open>\<^verbatim>\<open>getAttr\<close> and \<^verbatim>\<open>setAttr\<close>\<close>

text \<open>
  \<^verbatim>\<open>[datatypes.Vector(res[i], res[i + 1], res[i + 2]) for i in range(0, len(res), 3)]\<close>:
  a last group of fewer than three elements raises \<^verbatim>\<open>IndexError\<close>.
\<close>

fun vectors_of_triples :: "'h env \<Rightarrow> pyval list \<Rightarrow> exc + pyval list" where
  "vectors_of_triples env [] = Inr []"
| "vectors_of_triples env (a # b # c # rest) =
     (case Vector env [a, b, c] of
        Inl e \<Rightarrow> Inl e
      | Inr v \<Rightarrow>
          (case vectors_of_triples env rest of
             Inl e \<Rightarrow> Inl e
           | Inr vs \<Rightarrow> Inr (v # vs)))"
| "vectors_of_triples env xs = Inl (Exc IndexError [])"

fun is_tuple :: "pyval \<Rightarrow> bool" where
  "is_tuple (PTuple xs) = True"
| "is_tuple v = False"

fun is_str :: "pyval \<Rightarrow> bool" where
  "is_str (PStr s) = True"
| "is_str v = False"

text \<open>\<^verbatim>\<open>x.endswith(suf)\<close>; a value that is not a string has no such method.\<close>

fun py_endswith :: "pyval \<Rightarrow> string \<Rightarrow> exc + bool" where
  "py_endswith (PStr s) suf = Inr (suffix suf s)"
| "py_endswith v suf = Inl (Exc AttributeError [])"

text \<open>
  The conversion of a non-empty list result \<open>res\<close> of \<^verbatim>\<open>cmds.getAttr\<close>, given its
  first element \<open>res0\<close> and the attribute type \<open>atype\<close> that the second query returned
  (lines 294 to 313).
\<close>

definition getAttr_convert :: "'h env \<Rightarrow> pyval \<Rightarrow> pyval list \<Rightarrow> pyval \<Rightarrow> exc + pyval" where
  "getAttr_convert env res0 res atype =
     (if is_tuple res0 then
        (if atype = PStr ''pointArray'' then
           (case sequence_exc (map (\<lambda>x. Vector env [x]) res) of
              Inl e \<Rightarrow> Inl e
            | Inr vs \<Rightarrow> Inr (PList vs))
         else if atype = PStr ''vectorArray'' then
           (case sequence_exc (map (\<lambda>x. Point env [x]) res) of
              Inl e \<Rightarrow> Inl e
            | Inr vs \<Rightarrow> Inr (PList vs))
         else
           (case py_endswith atype ''3'' of
              Inl e \<Rightarrow> Inl e
            | Inr True \<Rightarrow> Vector env [res0]
            | Inr False \<Rightarrow> Inr res0))
      else
        (if atype = PStr ''vectorArray'' then
           (case vectors_of_triples env res of
              Inl e \<Rightarrow> Inl e
            | Inr vs \<Rightarrow> Inr (PList vs))
         else if atype = PStr ''matrix'' then Matrix env [PList res]
         else Inr (PList res)))"

text \<open>
  \<^verbatim>\<open>isinstance(res, list) and len(res) > 0\<close>: the first element of the list and the
  elements after it.
\<close>

fun nonempty_list :: "pyval \<Rightarrow> (pyval \<times> pyval list) option" where
  "nonempty_list (PList (x # xs)) = Some (x, xs)"
| "nonempty_list v = None"

definition getAttr :: "'h env \<Rightarrow> pyval list \<Rightarrow> kwargs \<Rightarrow> 'h \<Rightarrow> (exc + pyval) \<times> 'h" where
  "getAttr env args kwargs h =
     (let args1 = obj_to_name_args env h args;
          kwargs1 = obj_to_name_kwargs env h kwargs
      in case cmds env ''getAttr'' args1 kwargs1 h of
           (Inl e, h1) \<Rightarrow> (Inl (Exc MayaAttributeError (exc_args e)), h1)
         | (Inr res, h1) \<Rightarrow>
             (case nonempty_list res of
                None \<Rightarrow> (Inr res, h1)
              | Some (res0, rest) \<Rightarrow>
                  (case args1 of
                     [] \<Rightarrow> (Inl (Exc IndexError []), h1)
                   | a0 # as \<Rightarrow>
                       (case cmds env ''getAttr'' [a0] [(''type'', PBool True)] h1 of
                          (Inl e, h2) \<Rightarrow> (Inl e, h2)
                        | (Inr atype, h2) \<Rightarrow>
                            (getAttr_convert env res0 (res0 # rest) atype, h2)))))"

text \<open>The loop of \<^verbatim>\<open>setAttr\<close> that flattens lists, sets and tuples by one level.\<close>

fun flatten_arg :: "pyval \<Rightarrow> pyval list" where
  "flatten_arg (PList xs) = xs"
| "flatten_arg (PSet xs) = xs"
| "flatten_arg (PTuple xs) = xs"
| "flatten_arg v = [v]"

definition setAttr_fargs :: "'h env \<Rightarrow> 'h \<Rightarrow> pyval list \<Rightarrow> pyval list" where
  "setAttr_fargs env h args = concat (map flatten_arg (map dt_to_value (obj_to_name_args env h args)))"

text \<open>
  The keyword arguments \<^verbatim>\<open>setAttr\<close> passes on, from the flattened positional
  arguments and the converted keyword arguments (lines 330 to 336).
\<close>

definition setAttr_kwargs :: "pyval list \<Rightarrow> kwargs \<Rightarrow> kwargs" where
  "setAttr_kwargs fargs kwargs1 =
     (if length fargs = 2 \<and> is_str (fargs ! 1)
         \<and> ''typ'' \<notin> set (map fst kwargs1) \<and> ''type'' \<notin> set (map fst kwargs1)
      then AList.update ''type'' (PStr ''string'') kwargs1
      else kwargs1)"

definition setAttr :: "'h env \<Rightarrow> pyval list \<Rightarrow> kwargs \<Rightarrow> 'h \<Rightarrow> (exc + pyval) \<times> 'h" where
  "setAttr env args kwargs h =
     (let fargs = setAttr_fargs env h args;
          kwargs1 = setAttr_kwargs fargs (obj_to_name_kwargs env h kwargs)
      in case cmds env ''setAttr'' fargs kwargs1 h of
           (Inl e, h1) \<Rightarrow> (Inl (Exc MayaAttributeError (exc_args e)), h1)
         | (Inr r, h1) \<Rightarrow> (Inr PNone, h1))"

subsection \<open>\<^verbatim>\<open>listHistory\<close> and \<^verbatim>\<open>listConnections\<close>\<close>

text \<open>\<^verbatim>\<open>x or []\<close>.\<close>

definition or_empty_list :: "'h env \<Rightarrow> pyval \<Rightarrow> pyval" where
  "or_empty_list env x = (if py_truthy env x then x else PList [])"

text \<open>
  \<^verbatim>\<open>[x for x in res if test(cmds.nodeType(x, **kw))]\<close>: one host query for each
  element, in order; the first exception ends the loop.
\<close>

fun filter_by_nodeType ::
  "'h env \<Rightarrow> kwargs \<Rightarrow> (pyval \<Rightarrow> exc + bool) \<Rightarrow> pyval list \<Rightarrow> 'h \<Rightarrow> (exc + pyval list) \<times> 'h" where
  "filter_by_nodeType env kw test [] h = (Inr [], h)"
| "filter_by_nodeType env kw test (x # xs) h =
     (case cmds env ''nodeType'' [x] kw h of
        (Inl e, h1) \<Rightarrow> (Inl e, h1)
      | (Inr t, h1) \<Rightarrow>
          (case test t of
             Inl e \<Rightarrow> (Inl e, h1)
           | Inr keep \<Rightarrow>
               (case filter_by_nodeType env kw test xs h1 of
                  (Inl e, h2) \<Rightarrow> (Inl e, h2)
                | (Inr ys, h2) \<Rightarrow> (Inr (if keep then x # ys else ys), h2))))"

text \<open>
  \<^verbatim>\<open>listHistory(*args, type=None, exactType=None, **kwargs)\<close>. The two named
  parameters are \<^verbatim>\<open>None\<close> or a string; \<open>truthy_name\<close> is the string when the
  parameter is true (\<^verbatim>\<open>if exactType\<close>, \<^verbatim>\<open>elif type\<close>).
\<close>

fun truthy_name :: "string option \<Rightarrow> string option" where
  "truthy_name None = None"
| "truthy_name (Some s) = (if s = [] then None else Some s)"

definition listHistory ::
  "'h env \<Rightarrow> pyval list \<Rightarrow> string option \<Rightarrow> string option \<Rightarrow> kwargs \<Rightarrow> 'h \<Rightarrow> (exc + pyval) \<times> 'h" where
  "listHistory env args type exactType kwargs h =
     (let args1 = obj_to_name_args env h args;
          kwargs1 = obj_to_name_kwargs env h kwargs
      in case cmds env ''listHistory'' args1 kwargs1 h of
           (Inl e, h1) \<Rightarrow> (Inl e, h1)
         | (Inr r, h1) \<Rightarrow>
             (let res = or_empty_list env r
              in case truthy_name exactType of
                   Some et \<Rightarrow>
                     (case py_iter env res of
                        Inl e \<Rightarrow> (Inl e, h1)
                      | Inr xs \<Rightarrow>
                          (case filter_by_nodeType env [] (\<lambda>t. Inr (t = PStr et)) xs h1 of
                             (Inl e, h2) \<Rightarrow> (Inl e, h2)
                           | (Inr ys, h2) \<Rightarrow>
                               (Inr (name_to_obj env h2 SCOPE_NODE PNone (PList ys)), h2)))
                 | None \<Rightarrow>
                     (case truthy_name type of
                        Some ty \<Rightarrow>
                          (case py_iter env res of
                             Inl e \<Rightarrow> (Inl e, h1)
                           | Inr xs \<Rightarrow>
                               (case filter_by_nodeType env [(''inherited'', PBool True)]
                                       (\<lambda>t. py_contains env t ty) xs h1 of
                                  (Inl e, h2) \<Rightarrow> (Inl e, h2)
                                | (Inr ys, h2) \<Rightarrow>
                                    (Inr (name_to_obj env h2 SCOPE_NODE PNone (PList ys)), h2)))
                      | None \<Rightarrow> (Inr (name_to_obj env h1 SCOPE_NODE PNone res), h1))))"

text \<open>
  The pairs that \<^verbatim>\<open>listConnections\<close> builds from the flat result \<open>c\<close> of a query:
  \<^verbatim>\<open>[(c[i + 1], c[i]) for i in range(0, len(c), 2)]\<close> when \<open>swap\<close>, and
  \<^verbatim>\<open>[(c[i], c[i + 1]) for i in range(0, len(c), 2)]\<close> otherwise. The elements of a
  tuple are evaluated from left to right.
\<close>

definition connection_pair :: "'h env \<Rightarrow> bool \<Rightarrow> pyval \<Rightarrow> nat \<Rightarrow> exc + pyval" where
  "connection_pair env swap c i =
     (if swap then
        (case py_getitem env c (i + 1) of
           Inl e \<Rightarrow> Inl e
         | Inr b \<Rightarrow> (case py_getitem env c i of Inl e \<Rightarrow> Inl e | Inr a \<Rightarrow> Inr (PTuple [b, a])))
      else
        (case py_getitem env c i of
           Inl e \<Rightarrow> Inl e
         | Inr a \<Rightarrow> (case py_getitem env c (i + 1) of Inl e \<Rightarrow> Inl e | Inr b \<Rightarrow> Inr (PTuple [a, b]))))"

definition connection_pairs :: "'h env \<Rightarrow> bool \<Rightarrow> pyval \<Rightarrow> exc + pyval list" where
  "connection_pairs env swap c =
     (case py_len env c of
        Inl e \<Rightarrow> Inl e
      | Inr n \<Rightarrow> sequence_exc (map (connection_pair env swap c) (py_range n 2)))"

text \<open>The keyword arguments of the first query of \<^verbatim>\<open>sourceFirst\<close> (lines 372 to 375).\<close>

definition source_kwargs :: "'h env \<Rightarrow> kwargs \<Rightarrow> kwargs" where
  "source_kwargs env kwargs1 =
     (let kw2 = (if (case map_of kwargs1 ''source'' of None \<Rightarrow> True | Some v \<Rightarrow> \<not> py_truthy env v)
                 then AList.update ''source'' (PBool True) kwargs1 else kwargs1)
      in if (case map_of kw2 ''destination'' of None \<Rightarrow> True | Some v \<Rightarrow> py_truthy env v)
         then AList.update ''destination'' (PBool False) kw2 else kw2)"

text \<open>The keyword arguments of the second query (lines 384 and 385).\<close>

definition destination_kwargs :: "kwargs \<Rightarrow> kwargs" where
  "destination_kwargs kw =
     AList.update ''destination'' (PBool True) (AList.update ''source'' (PBool False) kw)"

definition listConnections ::
  "'h env \<Rightarrow> pyval list \<Rightarrow> bool \<Rightarrow> kwargs \<Rightarrow> 'h \<Rightarrow> (exc + pyval) \<times> 'h" where
  "listConnections env args sourceFirst kwargs h =
     (let args1 = obj_to_name_args env h args;
          kwargs1 = obj_to_name_kwargs env h kwargs
      in if sourceFirst then
           (let kw_src = source_kwargs env kwargs1
            in case cmds env ''listConnections'' args1 kw_src h of
                 (Inl e, h1) \<Rightarrow> (Inl e, h1)
               | (Inr r1, h1) \<Rightarrow>
                   (case connection_pairs env True (or_empty_list env r1) of
                      Inl e \<Rightarrow> (Inl e, h1)
                    | Inr res_source \<Rightarrow>
                        (case cmds env ''listConnections'' args1 (destination_kwargs kw_src) h1 of
                           (Inl e, h2) \<Rightarrow> (Inl e, h2)
                         | (Inr r2, h2) \<Rightarrow>
                             (case connection_pairs env False (or_empty_list env r2) of
                                Inl e \<Rightarrow> (Inl e, h2)
                              | Inr res_destination \<Rightarrow>
                                  (Inr (name_to_obj env h2 SCOPE_NODE PNone
                                          (PList (res_destination @ res_source))), h2)))))
         else
           (case cmds env ''listConnections'' args1 kwargs1 h of
              (Inl e, h1) \<Rightarrow> (Inl e, h1)
            | (Inr r, h1) \<Rightarrow>
                (Inr (name_to_obj env h1 SCOPE_NODE PNone (or_empty_list env r)), h1)))"

text \<open>The flat list that holds the pairs \<open>ps\<close> one after the other.\<close>

definition flat_pairs :: "(pyval \<times> pyval) list \<Rightarrow> pyval list" where
  "flat_pairs ps = concat (map (\<lambda>(a, b). [a, b]) ps)"

section \<open>Node handles of \<^verbatim>\<open>pymaya/node.py\<close>\<close>

subsection \<open>The host API\<close>

type_synonym mobject = nat
type_synonym dagpath = nat
type_synonym plug = nat

text \<open>The function sets that \<^verbatim>\<open>__init__\<close> asks for with \<^verbatim>\<open>MObject.hasFn\<close>.\<close>

datatype mfn = kDependencyNode | kDagNode | kTransform

text \<open>
  \<open>Attribute i p\<close> is the object that \<^verbatim>\<open>attr.Attribute(p)\<close> creates for the plug
  \<open>p\<close>, the \<open>i\<close>-th object created; \<open>i\<close> is its identity.
\<close>

datatype attribute = Attribute nat plug

text \<open>
  The calls of \<^verbatim>\<open>OpenMaya\<close> and of the module \<^verbatim>\<open>attr\<close> that the class \<^verbatim>\<open>_Node\<close>
  makes; they read the scene. \<open>MSelectionList_add h x\<close> is \<^verbatim>\<open>add(x)\<close> on the cleared
  selection list: \<open>None\<close>, or the exception it raises; \<open>getDependNode h x\<close> is
  \<^verbatim>\<open>getDependNode(0)\<close> of the list that holds \<open>x\<close>. \<open>handle_findPlug h v a\<close> is
  \<^verbatim>\<open>v.dgFn().findPlug(a, False)\<close> for a handle \<open>v\<close> that \<^verbatim>\<open>bind.PyNode\<close> returned,
  and \<open>Attribute_getitem a i\<close> is \<^verbatim>\<open>a[i]\<close> for an attribute object.
\<close>

record 'h api =
  MSelectionList_add :: "'h \<Rightarrow> pyval \<Rightarrow> exc option"
  getDependNode :: "'h \<Rightarrow> pyval \<Rightarrow> exc + mobject"
  hasFn :: "'h \<Rightarrow> mobject \<Rightarrow> mfn \<Rightarrow> bool"
  getAPathTo :: "'h \<Rightarrow> mobject \<Rightarrow> dagpath"
  partialPathName :: "'h \<Rightarrow> dagpath \<Rightarrow> string"
  fullPathName :: "'h \<Rightarrow> dagpath \<Rightarrow> string"
  dg_name :: "'h \<Rightarrow> mobject \<Rightarrow> string"
  findPlug :: "'h \<Rightarrow> mobject \<Rightarrow> string \<Rightarrow> exc + plug"
  handle_findPlug :: "'h \<Rightarrow> pyval \<Rightarrow> string \<Rightarrow> exc + plug"
  Attribute_getitem :: "attribute \<Rightarrow> nat \<Rightarrow> exc + attribute"
  mobject_str :: "mobject \<Rightarrow> string"

definition logged_api :: "'h api \<Rightarrow> ('h \<times> call list) api" where
  "logged_api api =
     \<lparr> MSelectionList_add = (\<lambda>(h, tr). MSelectionList_add api h),
       getDependNode = (\<lambda>(h, tr). getDependNode api h),
       hasFn = (\<lambda>(h, tr). hasFn api h),
       getAPathTo = (\<lambda>(h, tr). getAPathTo api h),
       partialPathName = (\<lambda>(h, tr). partialPathName api h),
       fullPathName = (\<lambda>(h, tr). fullPathName api h),
       dg_name = (\<lambda>(h, tr). dg_name api h),
       findPlug = (\<lambda>(h, tr). findPlug api h),
       handle_findPlug = (\<lambda>(h, tr). handle_findPlug api h),
       Attribute_getitem = Attribute_getitem api,
       mobject_str = mobject_str api \<rparr>"

subsection \<open>The class \<^verbatim>\<open>_Node\<close>\<close>

text \<open>The module-level functions that \<^verbatim>\<open>__init__\<close> binds with \<^verbatim>\<open>partial(f, self)\<close>.\<close>

datatype node_fn =
    Fn_getParent | Fn_getChildren | Fn_addChild
  | Fn_getBoundingBox | Fn_getPivots | Fn_setTransformation | Fn_getTransformation
  | Fn_getShape | Fn_getShapes | Fn_setMatrix | Fn_getMatrix
  | Fn_getTranslation | Fn_setTranslation | Fn_setRotation | Fn_getRotation
  | Fn_getScale | Fn_setScale

text \<open>The function set a handle keeps as \<^verbatim>\<open>__api_mfn\<close>.\<close>

datatype api_fn = MFnDependencyNode mobject | MFnDagNode dagpath

text \<open>
  A node handle: the private fields that \<^verbatim>\<open>__init__\<close> sets, and \<open>node_methods\<close>, the
  method attributes it binds on the instance, in the order of their assignment.
\<close>

record node =
  node_obj :: mobject
  node_attrs :: "(string \<times> attribute) list"
  node_api_mfn :: api_fn
  node_fn_dg :: api_fn
  node_is_transform :: bool
  node_dagpath :: "dagpath option"
  node_fn_dag :: "api_fn option"
  node_methods :: "(string \<times> node_fn) list"

text \<open>The argument of the constructor: an \<^verbatim>\<open>MObject\<close>, or any other value (a name).\<close>

datatype init_arg = ArgMObject mobject | ArgValue pyval

fun init_arg_str :: "'h env \<Rightarrow> 'h api \<Rightarrow> init_arg \<Rightarrow> string" where
  "init_arg_str env api (ArgMObject ob) = mobject_str api ob"
| "init_arg_str env api (ArgValue v) = py_str env v"

text \<open>\<^verbatim>\<open>_Node.__getObjectFromName\<close>: only a \<^verbatim>\<open>RuntimeError\<close> of \<^verbatim>\<open>add\<close> gives \<^verbatim>\<open>None\<close>.\<close>

definition getObjectFromName :: "'h api \<Rightarrow> 'h \<Rightarrow> pyval \<Rightarrow> exc + mobject option" where
  "getObjectFromName api h nodename =
     (case MSelectionList_add api h nodename of
        Some e \<Rightarrow> (if exc_class_of e = RuntimeError then Inr None else Inl e)
      | None \<Rightarrow>
          (case getDependNode api h nodename of
             Inl e \<Rightarrow> Inl e
           | Inr ob \<Rightarrow> Inr (Some ob)))"

definition dag_methods :: "(string \<times> node_fn) list" where
  "dag_methods =
     [(''getParent'', Fn_getParent), (''getChildren'', Fn_getChildren), (''addChild'', Fn_addChild)]"

definition transform_methods :: "(string \<times> node_fn) list" where
  "transform_methods =
     [(''getBoundingBox'', Fn_getBoundingBox), (''getPivots'', Fn_getPivots),
      (''setTransformation'', Fn_setTransformation), (''getTransformation'', Fn_getTransformation),
      (''getShape'', Fn_getShape), (''getShapes'', Fn_getShapes),
      (''setMatrix'', Fn_setMatrix), (''getMatrix'', Fn_getMatrix),
      (''getTranslation'', Fn_getTranslation), (''setTranslation'', Fn_setTranslation),
      (''setRotation'', Fn_setRotation), (''getRotation'', Fn_getRotation),
      (''getScale'', Fn_getScale), (''setScale'', Fn_setScale)]"

text \<open>The handle that \<^verbatim>\<open>__init__\<close> completes for the object \<open>ob\<close> (lines 225 to 256).\<close>

definition Node_of_object :: "'h api \<Rightarrow> 'h \<Rightarrow> mobject \<Rightarrow> node" where
  "Node_of_object api h ob =
     (if hasFn api h ob kDagNode then
        \<lparr> node_obj = ob, node_attrs = [],
          node_api_mfn = MFnDagNode (getAPathTo api h ob),
          node_fn_dg = MFnDependencyNode ob,
          node_is_transform = hasFn api h ob kTransform,
          node_dagpath = Some (getAPathTo api h ob),
          node_fn_dag = Some (MFnDagNode (getAPathTo api h ob)),
          node_methods =
            dag_methods @ (if hasFn api h ob kTransform then transform_methods else []) \<rparr>
      else
        \<lparr> node_obj = ob, node_attrs = [],
          node_api_mfn = MFnDependencyNode ob,
          node_fn_dg = MFnDependencyNode ob,
          node_is_transform = False,
          node_dagpath = None,
          node_fn_dag = None,
          node_methods = [] \<rparr>)"

text \<open>\<^verbatim>\<open>_Node.__init__\<close>: the handle, or the exception that leaves none.\<close>

definition Node_init :: "'h env \<Rightarrow> 'h api \<Rightarrow> 'h \<Rightarrow> init_arg \<Rightarrow> exc + node" where
  "Node_init env api h nodename_or_mobject =
     (case (case nodename_or_mobject of
              ArgMObject ob \<Rightarrow> Inr ob
            | ArgValue v \<Rightarrow>
                (case getObjectFromName api h v of
                   Inl e \<Rightarrow> Inl e
                 | Inr None \<Rightarrow>
                     Inl (Exc MayaNodeError
                            [PStr (''No such node '' @ [CHR 0x27]
                                   @ init_arg_str env api nodename_or_mobject @ [CHR 0x27])])
                 | Inr (Some ob) \<Rightarrow> Inr ob)) of
        Inl e \<Rightarrow> Inl e
      | Inr ob \<Rightarrow>
          (if \<not> hasFn api h ob kDependencyNode then
             Inl (Exc MayaNodeError
                    [PStr (''Not a dependency node '' @ [CHR 0x27]
                           @ init_arg_str env api nodename_or_mobject @ [CHR 0x27])])
           else Inr (Node_of_object api h ob)))"

text \<open>\<^verbatim>\<open>_Node.name(long)\<close>.\<close>

definition Node_name :: "'h api \<Rightarrow> 'h \<Rightarrow> node \<Rightarrow> bool \<Rightarrow> string" where
  "Node_name api h n long =
     (case node_fn_dag n of
        Some (MFnDagNode dp) \<Rightarrow> (if \<not> long then partialPathName api h dp else fullPathName api h dp)
      | _ \<Rightarrow> dg_name api h (node_obj n))"

text \<open>
  \<^verbatim>\<open>_getShapes(node, **kwargs)\<close> calls the wrapped command \<^verbatim>\<open>cmd.listRelatives\<close> with
  the handle; the wrapper replaces the handle by its \<^verbatim>\<open>name()\<close>, which the model passes
  directly. \<^verbatim>\<open>kwargs.pop("shapes", kwargs.pop("s", None))\<close> removes both keys.
\<close>

definition getShapes ::
  "'h env \<Rightarrow> 'h api \<Rightarrow> node \<Rightarrow> kwargs \<Rightarrow> 'h \<Rightarrow> (exc + pyval) \<times> 'h" where
  "getShapes env api n kwargs h =
     pymaya_cmd_wrap env ''listRelatives'' True SCOPE_NODE [PStr (Node_name api h n False)]
       (AList.update ''shapes'' (PBool True) (AList.delete ''shapes'' (AList.delete ''s'' kwargs))) h"

text \<open>
  \<^verbatim>\<open>_getShape(node, **kwargs)\<close>: the first shape, or \<^verbatim>\<open>None\<close>. It calls
  \<^verbatim>\<open>node.getShapes\<close>, which \<^verbatim>\<open>__init__\<close> binds to \<^verbatim>\<open>_getShapes\<close> whenever it
  binds \<^verbatim>\<open>getShape\<close>.
\<close>

definition getShape ::
  "'h env \<Rightarrow> 'h api \<Rightarrow> node \<Rightarrow> kwargs \<Rightarrow> 'h \<Rightarrow> (exc + pyval) \<times> 'h" where
  "getShape env api n kwargs h =
     (case getShapes env api n kwargs h of
        (Inl e, h1) \<Rightarrow> (Inl e, h1)
      | (Inr shapes, h1) \<Rightarrow>
          (if py_truthy env shapes then (py_getitem env shapes 0, h1) else (Inr PNone, h1)))"

text \<open>
  \<^verbatim>\<open>RE_ATTR_INDEX.search(name)\<close> for the pattern \<^verbatim>\<open>\[([0-9]+)\]\<close>: the start of the
  leftmost bracketed run of digits and the number it denotes.
\<close>

definition is_digit :: "char \<Rightarrow> bool" where
  "is_digit c = (c \<in> set ''0123456789'')"

definition digits_value :: "string \<Rightarrow> nat" where
  "digits_value ds = foldl (\<lambda>acc c. 10 * acc + (of_char c - 48)) 0 ds"

fun index_match_here :: "string \<Rightarrow> nat option" where
  "index_match_here [] = None"
| "index_match_here (c # cs) =
     (if c = CHR ''['' \<and> takeWhile is_digit cs \<noteq> []
         \<and> (case dropWhile is_digit cs of [] \<Rightarrow> False | d # ds \<Rightarrow> d = CHR '']'')
      then Some (digits_value (takeWhile is_digit cs))
      else None)"

fun re_attr_index_search :: "string \<Rightarrow> (nat \<times> nat) option" where
  "re_attr_index_search [] = None"
| "re_attr_index_search (c # cs) =
     (case index_match_here (c # cs) of
        Some i \<Rightarrow> Some (0, i)
      | None \<Rightarrow>
          (case re_attr_index_search cs of
             None \<Rightarrow> None
           | Some (start, i) \<Rightarrow> Some (Suc start, i)))"

text \<open>
  The plug of \<^verbatim>\<open>attr\<close> on a cache miss (lines 348 to 364): the node's own plug, or
  else, with \<^verbatim>\<open>checkShape\<close>, the plug of the first shape. The method \<^verbatim>\<open>getShape\<close> is
  looked up on the instance, where \<^verbatim>\<open>__init__\<close> binds it to \<^verbatim>\<open>_getShape\<close> for a
  transform only; on another node the lookup raises \<^verbatim>\<open>AttributeError\<close>.
\<close>

definition attr_not_found :: "string \<Rightarrow> exc" where
  "attr_not_found name =
     Exc MayaAttributeError [PStr (''No '' @ [CHR 0x27] @ name @ [CHR 0x27] @ '' attr found'')]"

definition attr_plug ::
  "'h env \<Rightarrow> 'h api \<Rightarrow> node \<Rightarrow> string \<Rightarrow> string \<Rightarrow> bool \<Rightarrow> 'h \<Rightarrow> (exc + plug) \<times> 'h" where
  "attr_plug env api n name attrname checkShape h =
     (case findPlug api h (node_obj n) attrname of
        Inr p \<Rightarrow> (Inr p, h)
      | Inl e \<Rightarrow>
          (if checkShape then
             (case map_of (node_methods n) ''getShape'' of
                Some Fn_getShape \<Rightarrow>
                  (case getShape env api n [] h of
                     (Inl e1, h1) \<Rightarrow> (Inl e1, h1)
                   | (Inr shape, h1) \<Rightarrow>
                       (if py_truthy env shape then
                          (case handle_findPlug api h1 shape attrname of
                             Inr p \<Rightarrow> (Inr p, h1)
                           | Inl e2 \<Rightarrow> (Inl (attr_not_found name), h1))
                        else (Inl (attr_not_found name), h1)))
              | _ \<Rightarrow> (Inl (Exc AttributeError []), h))
           else (Inl (attr_not_found name), h)))"

text \<open>
  \<^verbatim>\<open>_Node.attr(name, checkShape)\<close>. The state is the handle (its cache
  \<^verbatim>\<open>__attrs\<close>), the host, and the number of objects created so far, which gives a new
  \<^verbatim>\<open>Attribute\<close> object its identity.
\<close>

definition Node_attr ::
  "'h env \<Rightarrow> 'h api \<Rightarrow> string \<Rightarrow> bool \<Rightarrow> node \<times> 'h \<times> nat \<Rightarrow> (exc + attribute) \<times> node \<times> 'h \<times> nat" where
  "Node_attr env api name checkShape st =
     (case st of (n, h, created) \<Rightarrow>
        (case map_of (node_attrs n) name of
           Some a \<Rightarrow> (Inr a, n, h, created)
         | None \<Rightarrow>
             (let idre = re_attr_index_search name;
                  attrname = (case idre of None \<Rightarrow> name | Some (start, i) \<Rightarrow> take start name);
                  idx = (case idre of None \<Rightarrow> None | Some (start, i) \<Rightarrow> Some i)
              in case attr_plug env api n name attrname checkShape h of
                   (Inl e, h1) \<Rightarrow> (Inl e, n, h1, created)
                 | (Inr p, h1) \<Rightarrow>
                     (case (case idx of
                              None \<Rightarrow> Inr (Attribute created p)
                            | Some i \<Rightarrow> Attribute_getitem api (Attribute created p) i) of
                        Inl e \<Rightarrow> (Inl e, n, h1, Suc created)
                      | Inr a \<Rightarrow>
                          (Inr a, n\<lparr>node_attrs := AList.update name a (node_attrs n)\<rparr>,
                           h1, Suc created)))))"

subsection \<open>The registry \<^verbatim>\<open>_NodeTypes\<close>\<close>

text \<open>
  A class of handles: one that a module defines, by its name, or the class \<^verbatim>\<open>_New\<close>
  that one run of \<^verbatim>\<open>registerClass\<close> creates, by its identity and its \<^verbatim>\<open>__name__\<close>.
\<close>

datatype pyclass = Class string | NewClass nat string

text \<open>\<^verbatim>\<open>c.upper()\<close> for a character of a type name, which is an ASCII identifier.\<close>

definition upper_char :: "char \<Rightarrow> char" where
  "upper_char c =
     (case map_of (zip ''abcdefghijklmnopqrstuvwxyz'' ''ABCDEFGHIJKLMNOPQRSTUVWXYZ'') c of
        Some u \<Rightarrow> u
      | None \<Rightarrow> c)"

text \<open>
  \<^verbatim>\<open>registerClass(typename, cls)\<close> on the dict \<^verbatim>\<open>__types\<close>; the second component
  of the state counts the objects created so far.
\<close>

definition registerClass ::
  "string \<Rightarrow> pyclass option \<Rightarrow> (string \<times> pyclass) list \<times> nat \<Rightarrow> (exc + unit) \<times> (string \<times> pyclass) list \<times> nat" where
  "registerClass typename cls st =
     (case st of (types, created) \<Rightarrow>
        (case cls of
           Some c \<Rightarrow> (Inr (), AList.update typename c types, created)
         | None \<Rightarrow>
             (case typename of
                [] \<Rightarrow> (Inl (Exc IndexError []), types, created)
              | c # cs \<Rightarrow>
                  (Inr (), AList.update typename (NewClass created (upper_char c # cs)) types,
                   Suc created))))"

text \<open>\<^verbatim>\<open>getTypeClass(typename)\<close>: the class, or \<^verbatim>\<open>None\<close>.\<close>

definition getTypeClass ::
  "'h env \<Rightarrow> string \<Rightarrow> (string \<times> pyclass) list \<times> nat \<Rightarrow> 'h \<Rightarrow>
     (exc + pyclass option) \<times> ((string \<times> pyclass) list \<times> nat) \<times> 'h" where
  "getTypeClass env typename st h =
     (case map_of (fst st) typename of
        Some c \<Rightarrow> (Inr (Some c), st, h)
      | None \<Rightarrow>
          (case cmds env ''allNodeTypes'' [] [] h of
             (Inl e, h1) \<Rightarrow> (Inl e, st, h1)
           | (Inr all_types, h1) \<Rightarrow>
               (case py_contains env all_types typename of
                  Inl e \<Rightarrow> (Inl e, st, h1)
                | Inr False \<Rightarrow> (Inr None, st, h1)
                | Inr True \<Rightarrow>
                    (case registerClass typename None st of
                       (Inl e, st1) \<Rightarrow> (Inl e, st1, h1)
                     | (Inr u, st1) \<Rightarrow>
                         (case map_of (fst st1) typename of
                            None \<Rightarrow> (Inl (Exc KeyError [PStr typename]), st1, h1)
                          | Some c \<Rightarrow> (Inr (Some c), st1, h1))))))"

section \<open>The MEL proxy \<^verbatim>\<open>_Mel\<close> of \<^verbatim>\<open>pymaya/cmd.py\<close>\<close>

text \<open>
  What the proxy builds for a name: \<open>CmdWrapper i name\<close> is the function that
  \<^verbatim>\<open>_pymaya_cmd_wrap(incmd, wrap_object=False)\<close> returns for the host command of that
  name, and \<open>MelProcedure i name\<close> is \<^verbatim>\<open>functools.partial(__wrap_mel, name)\<close>; \<open>i\<close>
  is the identity of the object, the number of objects created before it.
\<close>

datatype mel_callable = CmdWrapper nat string | MelProcedure nat string

text \<open>
  The value of an attribute lookup on the proxy: an attribute that the default lookup
  finds (the instance attributes \<^verbatim>\<open>eval\<close> and \<^verbatim>\<open>_Mel__cmds\<close>, the methods of the
  class), by its name, or a callable of the cache.
\<close>

datatype mel_attr = Ordinary string | Callable mel_callable

text \<open>
  \<^verbatim>\<open>_Mel.__getattribute__(name)\<close>. \<open>ordinary\<close> says which names the default lookup
  \<^verbatim>\<open>super().__getattribute__\<close> finds. The state is the cache \<^verbatim>\<open>__cmds\<close> with the
  number of objects created so far, and the host.
\<close>

definition Mel_getattribute ::
  "'h env \<Rightarrow> (string \<Rightarrow> bool) \<Rightarrow> string \<Rightarrow> (string \<times> mel_callable) list \<times> nat \<Rightarrow> 'h \<Rightarrow>
     (exc + mel_attr) \<times> ((string \<times> mel_callable) list \<times> nat) \<times> 'h" where
  "Mel_getattribute env ordinary name st h =
     (case st of (cache, created) \<Rightarrow>
        (if ordinary name then (Inr (Ordinary name), st, h)
         else
           (case map_of cache name of
              Some w \<Rightarrow> (Inr (Callable w), st, h)
            | None \<Rightarrow>
                (if name = ''eval'' then
                   (if ordinary ''eval'' then (Inr (Ordinary ''eval''), st, h)
                    else (Inl (Exc AttributeError []), st, h))
                 else if has_cmd env h name then
                   (Inr (Callable (CmdWrapper created name)),
                    (AList.update name (CmdWrapper created name) cache, Suc created), h)
                 else
                   (case mel_eval env (''whatIs '' @ name) h of
                      (Inl e, h1) \<Rightarrow> (Inl e, st, h1)
                    | (Inr res, h1) \<Rightarrow>
                        (case py_endswith res ''.mel'' of
                           Inl e \<Rightarrow> (Inl e, st, h1)
                         | Inr True \<Rightarrow>
                             (Inr (Callable (MelProcedure created name)),
                              (AList.update name (MelProcedure created name) cache, Suc created),
                              h1)
                         | Inr False \<Rightarrow> (Inl (Exc AttributeError []), st, h1)))))))"

text \<open>
  A run of lookups, one name after the other; between two lookups the host may have moved
  to any state, so each lookup comes with the host state it starts from. The result is
  the cache after the run.
\<close>

fun Mel_lookups ::
  "'h env \<Rightarrow> (string \<Rightarrow> bool) \<Rightarrow> (string \<times> 'h) list \<Rightarrow> (string \<times> mel_callable) list \<times> nat \<Rightarrow>
     (string \<times> mel_callable) list \<times> nat" where
  "Mel_lookups env ordinary [] st = st"
| "Mel_lookups env ordinary ((name, h) # rest) st =
     Mel_lookups env ordinary rest (fst (snd (Mel_getattribute env ordinary name st h)))"

section \<open>The animation clip widgets of \<^verbatim>\<open>game_tools_fbx/anim_clip_widgets.py\<close>\<close>

text \<open>
  The collaborators of the widgets, none of them among the sources: the exporter window
  (\<^verbatim>\<open>get_root_joint\<close>, \<^verbatim>\<open>get_or_create_export_node\<close>), the export node of
  \<^verbatim>\<open>fbx_export_node\<close> (\<open>FbxExportNode_get h\<close> says that \<^verbatim>\<open>FbxExportNode.get()\<close> is
  true, the class constant \<^verbatim>\<open>ANIM_CLIP_DATA\<close>, and the methods that read and write
  clips), \<^verbatim>\<open>fbx_utils.all_anim_layers_ordered\<close>, and Python's \<^verbatim>\<open>int\<close> on a string,
  which returns the integer or raises \<^verbatim>\<open>ValueError\<close>. A clip is a dict with string
  keys; a root joint is a name or \<^verbatim>\<open>None\<close>.
\<close>

record 'h fbx =
  get_root_joint :: "'h \<Rightarrow> string option"
  FbxExportNode_get :: "'h \<Rightarrow> bool"
  ANIM_CLIP_DATA :: kwargs
  find_animation_clip :: "'h \<Rightarrow> string option \<Rightarrow> string \<Rightarrow> kwargs"
  update_animation_clip :: "string option \<Rightarrow> string \<Rightarrow> kwargs \<Rightarrow> 'h \<Rightarrow> (exc + pyval) \<times> 'h"
  all_anim_layers_ordered :: "'h \<Rightarrow> string list"
  get_or_create_export_node :: "'h \<Rightarrow> 'h"
  add_animation_clip :: "string option \<Rightarrow> 'h \<Rightarrow> string option \<times> 'h"
  py_int :: "string \<Rightarrow> exc + int"

text \<open>
  A row of the list, an \<^verbatim>\<open>AnimClipWidget\<close>: whether it has an exporter (its parent),
  the two names it keeps, and the contents of its controls: the text of the three line
  edits, the check box, the items of the combo box and its current text.
\<close>

record anim_clip_widget =
  fbx_exporter :: bool
  clip_name :: string
  previous_name :: string
  clip_name_lineedit :: string
  start_frame_box :: string
  end_frame_box :: string
  export_checkbox :: bool
  anim_layer_items :: "string list"
  anim_layer_combo :: string

text \<open>\<^verbatim>\<open>d.get(key, default)\<close>.\<close>

definition dict_get :: "kwargs \<Rightarrow> string \<Rightarrow> pyval \<Rightarrow> pyval" where
  "dict_get d key dflt = (case map_of d key of Some v \<Rightarrow> v | None \<Rightarrow> dflt)"

text \<open>The argument of a Qt setter that takes a string, and of one that takes a boolean.\<close>

fun qt_str :: "pyval \<Rightarrow> exc + string" where
  "qt_str (PStr s) = Inr s"
| "qt_str v = Inl (Exc TypeError [])"

fun qt_bool :: "pyval \<Rightarrow> exc + bool" where
  "qt_bool (PBool b) = Inr b"
| "qt_bool v = Inl (Exc TypeError [])"

text \<open>\<^verbatim>\<open>AnimClipWidget._clear\<close>.\<close>

definition clear_widget :: "anim_clip_widget \<Rightarrow> anim_clip_widget" where
  "clear_widget w =
     w\<lparr>clip_name_lineedit := ''Untitled'', start_frame_box := [], end_frame_box := [],
       export_checkbox := False\<rparr>"

text \<open>
  \<^verbatim>\<open>AnimClipWidget.refresh\<close>. The combo box shows \<^verbatim>\<open>"None"\<close> and the layers, and
  \<^verbatim>\<open>setCurrentText\<close> selects the item of that text when there is one. The setters of
  \<^verbatim>\<open>_clear\<close> emit signals that run \<^verbatim>\<open>_on_update_anim_clip\<close>; in the state where
  \<^verbatim>\<open>_clear\<close> runs (no exporter, or no export node) that handler returns at once.
\<close>

definition refresh_widget ::
  "'h env \<Rightarrow> 'h fbx \<Rightarrow> 'h \<Rightarrow> anim_clip_widget \<Rightarrow> exc + anim_clip_widget" where
  "refresh_widget env fx h w =
     (if \<not> (FbxExportNode_get fx h \<and> fbx_exporter w) then Inr (clear_widget w)
      else
        (let anim_clip_data = find_animation_clip fx h (get_root_joint fx h) (clip_name w);
             items = ''None'' # all_anim_layers_ordered fx h
         in case qt_str (dict_get anim_clip_data ''title'' (PStr ''Untitled'')) of
              Inl e \<Rightarrow> Inl e
            | Inr title \<Rightarrow>
                (case qt_bool (dict_get anim_clip_data ''enabled'' (PBool True)) of
                   Inl e \<Rightarrow> Inl e
                 | Inr enabled \<Rightarrow>
                     (case qt_str (dict_get anim_clip_data ''animLayer'' (PStr ''None'')) of
                        Inl e \<Rightarrow> Inl e
                      | Inr layer \<Rightarrow>
                          Inr (w\<lparr>clip_name_lineedit := title,
                                 start_frame_box :=
                                   py_str env (dict_get anim_clip_data ''start_frame'' (PStr [])),
                                 end_frame_box :=
                                   py_str env (dict_get anim_clip_data ''end_frame'' (PStr [])),
                                 export_checkbox := enabled,
                                 anim_layer_items := items,
                                 anim_layer_combo :=
                                   (if layer \<in> set items then layer else ''None'')\<rparr>)))))"

text \<open>\<^verbatim>\<open>AnimClipWidget.__init__(clip_name, parent)\<close>: the controls as \<^verbatim>\<open>create_layout\<close>
  makes them, then \<^verbatim>\<open>refresh\<close>.\<close>

definition AnimClipWidget_init ::
  "'h env \<Rightarrow> 'h fbx \<Rightarrow> 'h \<Rightarrow> string \<Rightarrow> bool \<Rightarrow> exc + anim_clip_widget" where
  "AnimClipWidget_init env fx h name parent =
     refresh_widget env fx h
       \<lparr> fbx_exporter = parent, clip_name = name, previous_name = name,
         clip_name_lineedit = [], start_frame_box = [], end_frame_box = [],
         export_checkbox = True, anim_layer_items = [], anim_layer_combo = [] \<rparr>"

text \<open>The five keys that the update handler assigns.\<close>

definition clip_fields :: "string list" where
  "clip_fields = [''title'', ''enabled'', ''start_frame'', ''end_frame'', ''animLayer'']"

text \<open>
  The record that \<^verbatim>\<open>_on_update_anim_clip\<close> builds (lines 300 to 309): a copy of
  \<^verbatim>\<open>ANIM_CLIP_DATA\<close> with five keys assigned, in this order.
\<close>

definition anim_layer_value :: "string \<Rightarrow> string" where
  "anim_layer_value anim_layer = (if anim_layer \<noteq> [] \<and> anim_layer \<noteq> ''None'' then anim_layer else [])"

definition build_anim_clip_data :: "'h fbx \<Rightarrow> anim_clip_widget \<Rightarrow> exc + kwargs" where
  "build_anim_clip_data fx w =
     (let d1 = AList.update ''title'' (PStr (clip_name_lineedit w)) (ANIM_CLIP_DATA fx);
          d2 = AList.update ''enabled'' (PBool (export_checkbox w)) d1
      in case py_int fx (start_frame_box w) of
           Inl e \<Rightarrow> Inl e
         | Inr start_frame \<Rightarrow>
             (case py_int fx (end_frame_box w) of
                Inl e \<Rightarrow> Inl e
              | Inr end_frame \<Rightarrow>
                  Inr (AList.update ''animLayer'' (PStr (anim_layer_value (anim_layer_combo w)))
                        (AList.update ''end_frame'' (PInt end_frame)
                          (AList.update ''start_frame'' (PInt start_frame) d2)))))"

text \<open>\<^verbatim>\<open>if not x\<close> for a name or \<^verbatim>\<open>None\<close>.\<close>

definition falsy_name :: "string option \<Rightarrow> bool" where
  "falsy_name x = (truthy_name x = None)"

text \<open>\<^verbatim>\<open>AnimClipWidget._on_update_anim_clip\<close>.\<close>

definition on_update_anim_clip ::
  "'h fbx \<Rightarrow> anim_clip_widget \<Rightarrow> 'h \<Rightarrow> (exc + unit) \<times> anim_clip_widget \<times> 'h" where
  "on_update_anim_clip fx w h =
     (let root_joint = (if fbx_exporter w then get_root_joint fx h else None)
      in if falsy_name root_joint then (Inr (), w, h)
         else if \<not> FbxExportNode_get fx h then (Inr (), w, h)
         else
           (case build_anim_clip_data fx w of
              Inl e \<Rightarrow> (Inl e, w, h)
            | Inr anim_clip_data \<Rightarrow>
                (case update_animation_clip fx root_joint (previous_name w) anim_clip_data h of
                   (Inl e, h1) \<Rightarrow> (Inl e, w, h1)
                 | (Inr r, h1) \<Rightarrow>
                     (Inr (), w\<lparr>previous_name := clip_name_lineedit w\<rparr>, h1))))"

text \<open>
  The list, an \<^verbatim>\<open>AnimClipsListWidget\<close>: whether it has an exporter, its root joint, and
  the rows of \<^verbatim>\<open>_clips_layout\<close> from top to bottom.
\<close>

record anim_clips_list_widget =
  list_fbx_exporter :: bool
  list_root_joint :: "string option"
  clips_layout :: "anim_clip_widget list"

text \<open>\<^verbatim>\<open>AnimClipsListWidget._add_animation_clip(clip_name)\<close>: the list with the new row,
  and the row.\<close>

definition add_animation_clip_row ::
  "'h env \<Rightarrow> 'h fbx \<Rightarrow> 'h \<Rightarrow> anim_clips_list_widget \<Rightarrow> string \<Rightarrow>
     exc + anim_clips_list_widget \<times> anim_clip_widget" where
  "add_animation_clip_row env fx h lw name =
     (case AnimClipWidget_init env fx h name (list_fbx_exporter lw) of
        Inl e \<Rightarrow> Inl e
      | Inr anim_clip_widget \<Rightarrow>
          Inr (lw\<lparr>clips_layout := clips_layout lw @ [anim_clip_widget]\<rparr>, anim_clip_widget))"

text \<open>\<^verbatim>\<open>AnimClipsListWidget._on_add_animation_clip_button_clicked\<close>.\<close>

definition on_add_animation_clip_button_clicked ::
  "'h env \<Rightarrow> 'h fbx \<Rightarrow> anim_clips_list_widget \<Rightarrow> 'h \<Rightarrow> (exc + unit) \<times> anim_clips_list_widget \<times> 'h" where
  "on_add_animation_clip_button_clicked env fx lw h =
     (if falsy_name (list_root_joint lw) then
        (case cmds env ''warning''
                [PStr ''Could not add animation clip because no root joint is defined!''] [] h of
           (Inl e, h1) \<Rightarrow> (Inl e, lw, h1)
         | (Inr r, h1) \<Rightarrow> (Inr (), lw, h1))
      else if \<not> list_fbx_exporter lw then (Inl (Exc AttributeError []), lw, h)
      else
        (case add_animation_clip fx (list_root_joint lw) (get_or_create_export_node fx h) of
           (anim_clip_name, h1) \<Rightarrow>
             (case truthy_name anim_clip_name of
                None \<Rightarrow>
                  (case cmds env ''warning''
                          [PStr ''Was not possible to add new animation clip''] [] h1 of
                     (Inl e, h2) \<Rightarrow> (Inl e, lw, h2)
                   | (Inr r, h2) \<Rightarrow> (Inr (), lw, h2))
              | Some name \<Rightarrow>
                  (case add_animation_clip_row env fx h1 lw name of
                     Inl e \<Rightarrow> (Inl e, lw, h1)
                   | Inr (lw1, row) \<Rightarrow> (Inr (), lw1, h1)))))"

section \<open>Runs of cache operations\<close>

text \<open>
  A run of \<^verbatim>\<open>attr\<close> calls on one handle; each call comes with its arguments and the
  host state it starts from. The result is the handle after the run, with the number of
  objects created.
\<close>

fun Node_attr_calls ::
  "'h env \<Rightarrow> 'h api \<Rightarrow> (string \<times> bool \<times> 'h) list \<Rightarrow> node \<times> nat \<Rightarrow> node \<times> nat" where
  "Node_attr_calls env api [] st = st"
| "Node_attr_calls env api ((name, checkShape, h) # rest) st =
     (case Node_attr env api name checkShape (fst st, h, snd st) of
        (r, n1, h1, created1) \<Rightarrow> Node_attr_calls env api rest (n1, created1))"

text \<open>
  The operations of the registry that write or read \<^verbatim>\<open>__types\<close>, and a run of them;
  \<open>registers typename op\<close> says that \<open>op\<close> is a \<^verbatim>\<open>registerClass\<close> for that type name.
\<close>

datatype 'h nodetypes_op = GetTypeClass string 'h | RegisterClass string "pyclass option"

fun NodeTypes_run ::
  "'h env \<Rightarrow> 'h nodetypes_op list \<Rightarrow> (string \<times> pyclass) list \<times> nat \<Rightarrow> (string \<times> pyclass) list \<times> nat" where
  "NodeTypes_run env [] st = st"
| "NodeTypes_run env (GetTypeClass typename h # ops) st =
     NodeTypes_run env ops (fst (snd (getTypeClass env typename st h)))"
| "NodeTypes_run env (RegisterClass typename cls # ops) st =
     NodeTypes_run env ops (snd (registerClass typename cls st))"

fun registers :: "string \<Rightarrow> 'h nodetypes_op \<Rightarrow> bool" where
  "registers typename (RegisterClass t cls) = (t = typename)"
| "registers typename (GetTypeClass t h) = False"

section \<open>A concrete host\<close>

text \<open>
  A small host on which the statements below are run: its state counts the calls it has
  served; \<^verbatim>\<open>getAttr\<close> and \<^verbatim>\<open>setAttr\<close> raise, \<^verbatim>\<open>listConnections\<close> returns one
  connection on each side, \<^verbatim>\<open>ls\<close> returns one object, \<^verbatim>\<open>parentConstraint\<close> returns
  the list of one constraint node, and every other command returns \<^verbatim>\<open>None\<close>; three
  names bind to handles.
\<close>

definition demo_env :: "nat env" where
  "demo_env =
     \<lparr> cmds = (\<lambda>name args kwargs h.
         if name = ''getAttr'' \<or> name = ''setAttr'' then
           (Inl (Exc RuntimeError [PStr ''No object matches name: ghost.tx'']), Suc h)
         else if name = ''listConnections'' then
           (if map_of kwargs ''source'' = Some (PBool True)
            then (Inr (PList [PStr ''b.in'', PStr ''a.out'']), Suc h)
            else (Inr (PList [PStr ''b.out'', PStr ''c.in'']), Suc h))
         else if name = ''ls'' then (Inr (PList [PStr ''pCube1'']), Suc h)
         else if name = ''parentConstraint'' then
           (Inr (PList [PStr ''pCube1_parentConstraint1'']), Suc h)
         else (Inr PNone, Suc h)),
       mel_eval = (\<lambda>src h.
         if src = ''whatIs myProc'' then (Inr (PStr ''Mel procedure found in: /scripts/myProc.mel''), Suc h)
         else (Inr (PStr ''Unknown''), Suc h)),
       has_cmd = (\<lambda>h name. name \<in> set [''ls'', ''getAttr'', ''setAttr'', ''listRelatives'', ''listConnections'']),
       base_name = (\<lambda>h i. if i = 0 then ''pCube1'' else ''pCubeShape1''),
       toStringList = (\<lambda>h i. PList [PStr ''pCube1.vtx[0]'']),
       PyNode = (\<lambda>h s. if s \<in> set [''pCube1'', ''pCubeShape1'', ''pCube1_parentConstraint1'']
                         then Inr (PBase (length s - 6))
                         else Inl (Exc MayaNodeError [PStr s])),
       Vector = (\<lambda>a. Inr (PTuple a)),
       Point = (\<lambda>a. Inr (PTuple a)),
       Matrix = (\<lambda>a. Inr (PTuple a)),
       truthy_other = (\<lambda>v. True),
       len_other = (\<lambda>v. Inl (Exc TypeError [])),
       getitem_other = (\<lambda>v i. Inl (Exc TypeError [])),
       str_other = (\<lambda>v. ''<object>''),
       iter_other = (\<lambda>v. Inl (Exc TypeError [])),
       contains_other = (\<lambda>v s. Inl (Exc TypeError [])) \<rparr>"

text \<open>
  The same host, where \<^verbatim>\<open>getAttr\<close> returns the value of a translation, a list of one
  tuple, and raises when it is asked for the type of the attribute.
\<close>

definition type_query_env :: "nat env" where
  "type_query_env =
     demo_env\<lparr>cmds := (\<lambda>name args kwargs h.
        if name = ''getAttr'' then
          (if map_of kwargs ''type'' = Some (PBool True)
           then (Inl (Exc RuntimeError [PStr ''The type of the attribute cannot be read'']), Suc h)
           else (Inr (PList [PTuple [PInt 0, PInt 0, PInt 0]]), Suc h))
        else (Inr PNone, Suc h))\<rparr>"

text \<open>The same host, with every command returning \<^verbatim>\<open>None\<close>.\<close>

definition silent_env :: "nat env" where
  "silent_env = demo_env\<lparr>cmds := (\<lambda>name args kwargs h. (Inr PNone, Suc h))\<rparr>"

text \<open>
  A scene of three objects for the API: the transform \<^verbatim>\<open>pCube1\<close> (object 0), its shape
  \<^verbatim>\<open>pCubeShape1\<close> (object 1, a DAG node that is no transform) and the shader
  \<^verbatim>\<open>lambert1\<close> (object 2, a plain dependency node).
\<close>

definition demo_api :: "nat api" where
  "demo_api =
     \<lparr> MSelectionList_add = (\<lambda>h v.
         if v \<in> set [PStr ''pCube1'', PStr ''pCubeShape1'', PStr ''lambert1''] then None
         else Some (Exc RuntimeError [PStr ''(kInvalidParameter): Object does not exist''])),
       getDependNode = (\<lambda>h v.
         if v = PStr ''pCube1'' then Inr 0 else if v = PStr ''pCubeShape1'' then Inr 1 else Inr 2),
       hasFn = (\<lambda>h ob f.
         f = kDependencyNode \<or> (f = kDagNode \<and> ob \<le> 1) \<or> (f = kTransform \<and> ob = 0)),
       getAPathTo = (\<lambda>h ob. ob),
       partialPathName = (\<lambda>h dp. if dp = 0 then ''pCube1'' else ''pCubeShape1''),
       fullPathName = (\<lambda>h dp. if dp = 0 then ''|pCube1'' else ''|pCube1|pCubeShape1''),
       dg_name = (\<lambda>h ob. ''lambert1''),
       findPlug = (\<lambda>h ob a.
         if a \<in> set [''tx'', ''ty'', ''tz''] then Inr (length a + ob)
         else Inl (Exc RuntimeError [PStr ''(kInvalidParameter): Cannot find item of required type''])),
       handle_findPlug = (\<lambda>h v a. Inl (Exc RuntimeError [])),
       Attribute_getitem = (\<lambda>a i. Inl (Exc TypeError [])),
       mobject_str = (\<lambda>ob. ''<OpenMaya.MObject object>'') \<rparr>"

text \<open>
  An exporter with the root joint \<^verbatim>\<open>root\<close> and an export node; its state counts the
  writes. \<^verbatim>\<open>int\<close> reads a non-empty run of digits.
\<close>

definition demo_fbx :: "nat fbx" where
  "demo_fbx =
     \<lparr> get_root_joint = (\<lambda>h. Some ''root''),
       FbxExportNode_get = (\<lambda>h. True),
       ANIM_CLIP_DATA = [(''title'', PStr ''Untitled''), (''enabled'', PBool True),
                         (''start_frame'', PInt 0), (''end_frame'', PInt 0)],
       find_animation_clip = (\<lambda>h root name. [(''title'', PStr name), (''animLayer'', PStr ''None'')]),
       update_animation_clip = (\<lambda>root name clip h. (Inr PNone, Suc h)),
       all_anim_layers_ordered = (\<lambda>h. [''AnimLayer1'']),
       get_or_create_export_node = (\<lambda>h. h),
       add_animation_clip = (\<lambda>root h. (Some ''walk'', Suc h)),
       py_int = (\<lambda>s. if s \<noteq> [] \<and> list_all is_digit s then Inr (int (digits_value s))
                       else Inl (Exc ValueError [PStr s])) \<rparr>"

text \<open>The names that the default lookup finds on the proxy of the concrete host.\<close>

definition demo_ordinary :: "string \<Rightarrow> bool" where
  "demo_ordinary name = (name \<in> set [''eval'', ''_Mel__cmds'', ''_Mel__wrap_mel'', ''__init__''])"

section \<open>Properties of the command wrappers\<close>

subsection \<open>The recording host\<close>

lemma logged_simps:
  "base_name (logged env) (h, tr) = base_name env h"
  "toStringList (logged env) (h, tr) = toStringList env h"
  "PyNode (logged env) (h, tr) = PyNode env h"
  "has_cmd (logged env) (h, tr) = has_cmd env h"
  "Vector (logged env) = Vector env"
  "Point (logged env) = Point env"
  "Matrix (logged env) = Matrix env"
  "truthy_other (logged env) = truthy_other env"
  "len_other (logged env) = len_other env"
  "getitem_other (logged env) = getitem_other env"
  "str_other (logged env) = str_other env"
  "iter_other (logged env) = iter_other env"
  "contains_other (logged env) = contains_other env"
  by (simp_all add: logged_def)

lemma cmds_logged:
  "cmds (logged env) name args kwargs (h, tr) =
     (fst (cmds env name args kwargs h),
      (snd (cmds env name args kwargs h), tr @ [CmdCall name args kwargs]))"
  by (simp add: logged_def split: prod.splits)

lemma obj_to_name_logged:
  "obj_to_name (logged env) (h, tr) v = obj_to_name env h v"
proof (induction v)
  case (PDict kvs)
  have "\<And>k w. (k, w) \<in> set kvs \<Longrightarrow> obj_to_name (logged env) (h, tr) w = obj_to_name env h w"
    using PDict by (auto simp: snds.simps)
  then show ?case by (auto intro!: map_cong)
qed (simp_all add: logged_simps cong: map_cong)

lemma obj_to_name_logged_fun:
  "obj_to_name (logged env) (h, tr) = obj_to_name env h"
  by (rule ext) (rule obj_to_name_logged)

lemma obj_to_name_args_logged:
  "obj_to_name_args (logged env) (h, tr) args = obj_to_name_args env h args"
  by (simp add: obj_to_name_args_def obj_to_name_logged_fun)

lemma obj_to_name_kwargs_logged:
  "obj_to_name_kwargs (logged env) (h, tr) kw = obj_to_name_kwargs env h kw"
  by (simp add: obj_to_name_kwargs_def obj_to_name_logged_fun)

lemma setAttr_fargs_logged:
  "setAttr_fargs (logged env) (h, tr) args = setAttr_fargs env h args"
  by (simp add: setAttr_fargs_def obj_to_name_args_logged)

lemma py_truthy_logged: "py_truthy (logged env) v = py_truthy env v"
  by (cases v) (simp_all add: logged_simps)

lemma py_len_logged: "py_len (logged env) v = py_len env v"
  by (cases v) (simp_all add: logged_simps)

lemma py_getitem_logged: "py_getitem (logged env) v i = py_getitem env v i"
  by (cases v) (simp_all add: logged_simps)

lemma py_str_logged: "py_str (logged env) v = py_str env v"
  by (cases v) (simp_all add: logged_simps)

lemma name_to_obj_logged:
  "name_to_obj (logged env) (h, tr) scope known v = name_to_obj env h scope known v"
  by (induction v) (simp_all add: logged_simps py_str_logged cong: map_cong)

lemma or_empty_list_logged: "or_empty_list (logged env) v = or_empty_list env v"
  by (simp add: or_empty_list_def py_truthy_logged)

lemma connection_pairs_logged:
  "connection_pairs (logged env) swap c = connection_pairs env swap c"
proof -
  have "connection_pair (logged env) swap c = connection_pair env swap c"
    by (rule ext) (simp add: connection_pair_def py_getitem_logged cong: sum.case_cong)
  then show ?thesis
    by (simp add: connection_pairs_def py_len_logged cong: sum.case_cong)
qed

lemma source_kwargs_logged: "source_kwargs (logged env) kw = source_kwargs env kw"
  by (simp add: source_kwargs_def py_truthy_logged cong: option.case_cong)

lemma update_fresh: "k \<notin> set (map fst al) \<Longrightarrow> AList.update k v al = al @ [(k, v)]"
  by (induction al) auto

subsection \<open>The type flag of \<^verbatim>\<open>setAttr\<close>\<close>

text \<open>
  Claim C9. \<^verbatim>\<open>setAttr\<close> calls the host command \<^verbatim>\<open>setAttr\<close> exactly once, with the
  flattened positional arguments. When these are exactly two, the second is a string, and
  neither \<^verbatim>\<open>typ\<close> nor \<^verbatim>\<open>type\<close> is a keyword, the keyword arguments of that call
  are the caller's (handles replaced by names) followed by \<^verbatim>\<open>type="string"\<close>; in
  every other case they are the caller's, with nothing added.
\<close>

theorem setAttr_injects_string_type:
  "\<exists>r h1. setAttr (logged env) args kwargs (h, tr) =
     (r, (h1, tr @ [CmdCall ''setAttr'' (setAttr_fargs env h args)
        (let fargs = setAttr_fargs env h args; kw = obj_to_name_kwargs env h kwargs
         in if length fargs = 2 \<and> is_str (fargs ! 1)
               \<and> ''typ'' \<notin> set (map fst kw) \<and> ''type'' \<notin> set (map fst kw)
            then kw @ [(''type'', PStr ''string'')] else kw)]))"
  by (auto simp: setAttr_def Let_def setAttr_fargs_logged obj_to_name_kwargs_logged cmds_logged
       setAttr_kwargs_def update_fresh split: prod.splits sum.splits)

text \<open>
  On the concrete host: a string value gets the flag, three numbers do not, and a string
  value with an explicit \<^verbatim>\<open>type\<close> keeps the caller's.
\<close>

lemma setAttr_examples:
  "snd (snd (setAttr (logged silent_env) [PStr ''pCube1.notes'', PStr ''hello''] [] (0, []))) =
     [CmdCall ''setAttr'' [PStr ''pCube1.notes'', PStr ''hello''] [(''type'', PStr ''string'')]]"
  "snd (snd (setAttr (logged silent_env) [PStr ''pCube1.t'', PTuple [PInt 1, PInt 2, PInt 3]] []
               (0, []))) =
     [CmdCall ''setAttr'' [PStr ''pCube1.t'', PInt 1, PInt 2, PInt 3] []]"
  "snd (snd (setAttr (logged silent_env) [PStr ''pCube1.notes'', PStr ''hello'']
               [(''type'', PStr ''stringArray'')] (0, []))) =
     [CmdCall ''setAttr'' [PStr ''pCube1.notes'', PStr ''hello''] [(''type'', PStr ''stringArray'')]]"
  by (simp_all add: setAttr_def setAttr_fargs_def setAttr_kwargs_def obj_to_name_args_def
      obj_to_name_kwargs_def cmds_logged silent_env_def demo_env_def)

subsection \<open>\<^verbatim>\<open>listConnections\<close> with \<^verbatim>\<open>sourceFirst\<close>\<close>

lemma length_flat_pairs: "length (flat_pairs ps) = 2 * length ps"
  by (induction ps) (auto simp: flat_pairs_def)

lemma flat_pairs_nth:
  "j < length ps \<Longrightarrow> flat_pairs ps ! (2 * j) = fst (ps ! j) \<and> flat_pairs ps ! Suc (2 * j) = snd (ps ! j)"
proof (induction ps arbitrary: j)
  case Nil
  then show ?case by simp
next
  case (Cons p ps)
  then show ?case
    by (cases j; cases p) (auto simp: flat_pairs_def)
qed

lemma sequence_exc_Inr: "sequence_exc (map Inr xs) = Inr xs"
  by (induction xs) auto

lemma py_range_2: "py_range (2 * n) 2 = map (\<lambda>j. 2 * j) [0..<n]"
  by (simp add: py_range_def)

lemma connection_pairs_flat:
  "connection_pairs env swap (PList (flat_pairs ps)) =
     Inr (map (\<lambda>(a, b). if swap then PTuple [b, a] else PTuple [a, b]) ps)"
proof -
  have eq: "map (connection_pair env swap (PList (flat_pairs ps))) (map (\<lambda>j. 2 * j) [0..<length ps]) =
        map Inr (map (\<lambda>(a, b). if swap then PTuple [b, a] else PTuple [a, b]) ps)"
    by (rule nth_equalityI)
       (auto simp: connection_pair_def length_flat_pairs flat_pairs_nth split: prod.splits)
  show ?thesis
    unfolding connection_pairs_def
    by (simp only: py_len.simps length_flat_pairs sum.case py_range_2 eq sequence_exc_Inr)
qed

lemma or_empty_list_PList: "or_empty_list env (PList xs) = PList xs"
  by (simp add: or_empty_list_def)

lemma source_kwargs_source:
  "\<exists>v. map_of (source_kwargs env kw) ''source'' = Some v \<and> py_truthy env v"
  by (auto simp: source_kwargs_def Let_def update_conv' split: option.splits)

lemma source_kwargs_destination:
  "\<exists>v. map_of (source_kwargs env kw) ''destination'' = Some v \<and> \<not> py_truthy env v"
  by (auto simp: source_kwargs_def Let_def update_conv' split: option.splits)

text \<open>
  Claim C10. With \<^verbatim>\<open>sourceFirst=True\<close>, \<^verbatim>\<open>listConnections\<close> makes two host queries in
  this order: the first with \<^verbatim>\<open>source\<close> true and \<^verbatim>\<open>destination\<close> false (the source
  side), the second with \<^verbatim>\<open>source=False\<close> and \<^verbatim>\<open>destination=True\<close> (the destination
  side). When the first returns the flat list of the pairs \<open>src\<close> and the second the flat
  list of the pairs \<open>dst\<close>, the result is the list of the pairs of \<open>dst\<close>, each \<open>(a, b)\<close>
  in place, followed by the pairs of \<open>src\<close>, each \<open>(a, b)\<close> swapped to \<open>(b, a)\<close>; its
  strings are then bound to handles by \<^verbatim>\<open>_name_to_obj\<close>, as in every wrapper.
\<close>

theorem listConnections_sourceFirst:
  assumes "cmds env ''listConnections'' (obj_to_name_args env h args)
             (source_kwargs env (obj_to_name_kwargs env h kwargs)) h = (Inr (PList (flat_pairs src)), h1)"
    and "cmds env ''listConnections'' (obj_to_name_args env h args)
             (destination_kwargs (source_kwargs env (obj_to_name_kwargs env h kwargs))) h1 =
           (Inr (PList (flat_pairs dst)), h2)"
  shows "listConnections (logged env) args True kwargs (h, tr) =
      (Inr (name_to_obj env h2 SCOPE_NODE PNone
              (PList (map (\<lambda>(a, b). PTuple [a, b]) dst @ map (\<lambda>(a, b). PTuple [b, a]) src))),
       (h2, tr @ [CmdCall ''listConnections'' (obj_to_name_args env h args)
                    (source_kwargs env (obj_to_name_kwargs env h kwargs)),
                  CmdCall ''listConnections'' (obj_to_name_args env h args)
                    (destination_kwargs (source_kwargs env (obj_to_name_kwargs env h kwargs)))]))
    \<and> (\<exists>v. map_of (source_kwargs env (obj_to_name_kwargs env h kwargs)) ''source'' = Some v
           \<and> py_truthy env v)
    \<and> (\<exists>v. map_of (source_kwargs env (obj_to_name_kwargs env h kwargs)) ''destination'' = Some v
           \<and> \<not> py_truthy env v)
    \<and> map_of (destination_kwargs (source_kwargs env (obj_to_name_kwargs env h kwargs))) ''source''
          = Some (PBool False)
    \<and> map_of (destination_kwargs (source_kwargs env (obj_to_name_kwargs env h kwargs))) ''destination''
          = Some (PBool True)"
proof -
  have run: "listConnections (logged env) args True kwargs (h, tr) =
      (Inr (name_to_obj env h2 SCOPE_NODE PNone
              (PList (map (\<lambda>(a, b). PTuple [a, b]) dst @ map (\<lambda>(a, b). PTuple [b, a]) src))),
       (h2, tr @ [CmdCall ''listConnections'' (obj_to_name_args env h args)
                    (source_kwargs env (obj_to_name_kwargs env h kwargs)),
                  CmdCall ''listConnections'' (obj_to_name_args env h args)
                    (destination_kwargs (source_kwargs env (obj_to_name_kwargs env h kwargs)))]))"
    using assms
    by (simp add: listConnections_def Let_def obj_to_name_args_logged obj_to_name_kwargs_logged
        source_kwargs_logged cmds_logged or_empty_list_logged connection_pairs_logged
        or_empty_list_PList connection_pairs_flat name_to_obj_logged)
  have dst: "map_of (destination_kwargs kw) ''source'' = Some (PBool False)
      \<and> map_of (destination_kwargs kw) ''destination'' = Some (PBool True)" for kw
    by (simp add: destination_kwargs_def update_conv')
  show ?thesis
    using run source_kwargs_source [of env] source_kwargs_destination [of env] dst
    by blast
qed

theorem listConnections_sourceFirst_witness:
  "listConnections (logged demo_env) [PStr ''b''] True [] (0, []) =
     (Inr (PList [PTuple [PStr ''b.out'', PStr ''c.in''], PTuple [PStr ''a.out'', PStr ''b.in'']]),
      (2, [CmdCall ''listConnections'' [PStr ''b''] [(''source'', PBool True), (''destination'', PBool False)],
           CmdCall ''listConnections'' [PStr ''b''] [(''source'', PBool False), (''destination'', PBool True)]]))"
  using listConnections_sourceFirst [of demo_env 0 "[PStr ''b'']" "[]"
      "[(PStr ''b.in'', PStr ''a.out'')]" 1 "[(PStr ''b.out'', PStr ''c.in'')]" 2 "[]"]
  by (simp add: demo_env_def flat_pairs_def obj_to_name_args_def obj_to_name_kwargs_def
      source_kwargs_def destination_kwargs_def SCOPE_NODE_def SCOPE_ATTR_def)

subsection \<open>List commands that return \<^verbatim>\<open>None\<close>\<close>

lemma name_to_obj_empty_list: "name_to_obj env h scope known (PList []) = PList []"
  by simp

lemma wrap_None_list:
  assumes "prefix ''list'' name"
    and "cmds env name (obj_to_name_args env h args) (obj_to_name_kwargs env h kwargs) h = (Inr PNone, h1)"
    and "wrap_object \<and> scope = SCOPE_ATTR \<and> args = [] \<longrightarrow>
           (\<exists>sel h2. cmds env ''ls'' [] [(''sl'', PBool True)] h1 = (Inr sel, h2)
              \<and> (py_truthy env sel \<longrightarrow> (\<exists>k. py_getitem env sel 0 = Inr k)))"
  shows "fst (pymaya_cmd_wrap env name wrap_object scope args kwargs h) = Inr (PList [])"
proof (cases wrap_object)
  case False
  with assms(1,2) show ?thesis
    by (simp add: pymaya_cmd_wrap_def Let_def)
next
  case True
  have "\<exists>k h2. wrap_known_node env scope (obj_to_name_args env h args) h1 = (Inr k, h2)"
  proof (cases "scope = SCOPE_ATTR \<and> args = []")
    case False
    then show ?thesis
      by (auto simp: wrap_known_node_def obj_to_name_args_def)
  next
    case True
    with assms(3) \<open>wrap_object\<close> obtain sel h2 where
      sel: "cmds env ''ls'' [] [(''sl'', PBool True)] h1 = (Inr sel, h2)"
      and it: "py_truthy env sel \<longrightarrow> (\<exists>k. py_getitem env sel 0 = Inr k)"
      by blast
    with True show ?thesis
      by (auto simp: wrap_known_node_def obj_to_name_args_def)
  qed
  then obtain k h2 where "wrap_known_node env scope (obj_to_name_args env h args) h1 = (Inr k, h2)"
    by blast
  with True assms(1,2) show ?thesis
    by (simp add: pymaya_cmd_wrap_def Let_def)
qed

lemma listHistory_None:
  assumes "cmds env ''listHistory'' (obj_to_name_args env h args) (obj_to_name_kwargs env h kwargs) h = (Inr PNone, h1)"
  shows "listHistory env args type exactType kwargs h = (Inr (PList []), h1)"
  using assms
  by (simp add: listHistory_def Let_def or_empty_list_def split: option.splits)

lemma connection_pairs_empty: "connection_pairs env swap (PList []) = Inr []"
  by (simp add: connection_pairs_def py_range_def)

lemma listConnections_None:
  assumes "cmds env ''listConnections'' (obj_to_name_args env h args) (obj_to_name_kwargs env h kwargs) h = (Inr PNone, h1)"
  shows "listConnections env args False kwargs h = (Inr (PList []), h1)"
  using assms
  by (simp add: listConnections_def Let_def or_empty_list_def)

lemma or_empty_list_None: "or_empty_list env PNone = PList []"
  by (simp add: or_empty_list_def)

lemma connection_pairs_None_or_flat:
  assumes "r = PNone \<and> ps = [] \<or> r = PList (flat_pairs ps)"
  shows "connection_pairs env swap (or_empty_list env r) =
           Inr (map (\<lambda>(a, b). if swap then PTuple [b, a] else PTuple [a, b]) ps)"
  using assms
  by (auto simp: or_empty_list_None or_empty_list_PList connection_pairs_empty connection_pairs_flat)

lemma listConnections_sourceFirst_None:
  assumes "cmds env ''listConnections'' (obj_to_name_args env h args)
             (source_kwargs env (obj_to_name_kwargs env h kwargs)) h = (Inr r1, h1)"
    and "r1 = PNone \<and> src = [] \<or> r1 = PList (flat_pairs src)"
    and "cmds env ''listConnections'' (obj_to_name_args env h args)
             (destination_kwargs (source_kwargs env (obj_to_name_kwargs env h kwargs))) h1 = (Inr r2, h2)"
    and "r2 = PNone \<and> dst = [] \<or> r2 = PList (flat_pairs dst)"
  shows "listConnections env args True kwargs h =
      (Inr (name_to_obj env h2 SCOPE_NODE PNone
              (PList (map (\<lambda>(a, b). PTuple [a, b]) dst @ map (\<lambda>(a, b). PTuple [b, a]) src))), h2)"
  using assms(1,3) connection_pairs_None_or_flat [OF assms(2), of env True]
    connection_pairs_None_or_flat [OF assms(4), of env False]
  by (simp add: listConnections_def Let_def)

text \<open>
  Claim C2. When the host command of a wrapper whose name starts with \<^verbatim>\<open>list\<close> returns
  \<^verbatim>\<open>None\<close>, the wrapper returns the empty list. (In attribute scope without a
  positional argument a wrapper that re-wraps its result first asks the host for the
  selection; the statement is for a selection query that returns, with a result that
  can be indexed when it is not empty.) \<^verbatim>\<open>listHistory\<close> returns the empty list when the
  host returns \<^verbatim>\<open>None\<close>, and so does \<^verbatim>\<open>listConnections\<close> without
  \<^verbatim>\<open>sourceFirst\<close>. With \<^verbatim>\<open>sourceFirst\<close>, a query that returns \<^verbatim>\<open>None\<close> counts as
  one that returns no pair: the result is made of the pairs of the two queries, and is
  the empty list when both return \<^verbatim>\<open>None\<close>.
\<close>

theorem list_commands_return_empty_list_for_None:
  "(prefix ''list'' name
      \<and> cmds env name (obj_to_name_args env h args) (obj_to_name_kwargs env h kwargs) h = (Inr PNone, h1)
      \<and> (wrap_object \<and> scope = SCOPE_ATTR \<and> args = [] \<longrightarrow>
           (\<exists>sel h2. cmds env ''ls'' [] [(''sl'', PBool True)] h1 = (Inr sel, h2)
              \<and> (py_truthy env sel \<longrightarrow> (\<exists>k. py_getitem env sel 0 = Inr k)))) \<longrightarrow>
      fst (pymaya_cmd_wrap env name wrap_object scope args kwargs h) = Inr (PList []))
   \<and> (cmds env ''listHistory'' (obj_to_name_args env h args) (obj_to_name_kwargs env h kwargs) h
         = (Inr PNone, h1) \<longrightarrow>
        listHistory env args type exactType kwargs h = (Inr (PList []), h1))
   \<and> (cmds env ''listConnections'' (obj_to_name_args env h args) (obj_to_name_kwargs env h kwargs) h
         = (Inr PNone, h1) \<longrightarrow>
        listConnections env args False kwargs h = (Inr (PList []), h1))
   \<and> (cmds env ''listConnections'' (obj_to_name_args env h args)
          (source_kwargs env (obj_to_name_kwargs env h kwargs)) h = (Inr r1, h1)
        \<and> (r1 = PNone \<and> src = [] \<or> r1 = PList (flat_pairs src))
        \<and> cmds env ''listConnections'' (obj_to_name_args env h args)
             (destination_kwargs (source_kwargs env (obj_to_name_kwargs env h kwargs))) h1
            = (Inr r2, h2)
        \<and> (r2 = PNone \<and> dst = [] \<or> r2 = PList (flat_pairs dst)) \<longrightarrow>
        listConnections env args True kwargs h =
          (Inr (name_to_obj env h2 SCOPE_NODE PNone
                  (PList (map (\<lambda>(a, b). PTuple [a, b]) dst @ map (\<lambda>(a, b). PTuple [b, a]) src))),
           h2))"
  using wrap_None_list [of name env h args kwargs h1 wrap_object scope]
    listHistory_None [of env h args kwargs h1 type exactType]
    listConnections_None [of env h args kwargs h1]
    listConnections_sourceFirst_None [of env h args kwargs r1 h1 src r2 h2 dst]
  by blast

theorem list_commands_return_empty_list_for_None_witness:
  "fst (pymaya_cmd_wrap silent_env ''listRelatives'' True SCOPE_NODE [PStr ''pCube1''] [] 0)
     = Inr (PList [])
   \<and> listHistory silent_env [PStr ''pCube1''] None None [] 0 = (Inr (PList []), 1)
   \<and> listConnections silent_env [PStr ''pCube1''] False [] 0 = (Inr (PList []), 1)
   \<and> listConnections silent_env [PStr ''pCube1''] True [] 0 = (Inr (PList []), 2)"
  using list_commands_return_empty_list_for_None
    [where name = "''listRelatives''" and env = silent_env and h = 0 and args = "[PStr ''pCube1'']"
       and kwargs = "[]" and ?h1.0 = 1 and wrap_object = True and scope = SCOPE_NODE
       and type = None and exactType = None and ?r1.0 = PNone and src = "[]"
       and ?r2.0 = PNone and ?h2.0 = 2 and dst = "[]"]
  by (simp add: silent_env_def demo_env_def obj_to_name_args_def obj_to_name_kwargs_def
      SCOPE_NODE_def SCOPE_ATTR_def)

subsection \<open>Re-wrapping of results\<close>

text \<open>
  Claim C3, as stated, fails for a command whose name starts with \<^verbatim>\<open>list\<close>: on the
  concrete host, \<^verbatim>\<open>listRelatives\<close> returns \<^verbatim>\<open>None\<close> and its wrapper, created with
  \<^verbatim>\<open>wrap_object=True\<close>, returns the empty list, not \<^verbatim>\<open>None\<close>.
\<close>

theorem wrapped_None_result_counterexample:
  "cmds demo_env ''listRelatives'' [PStr ''pCube1''] [] 0 = (Inr PNone, 1)
   \<and> fst (pymaya_cmd_wrap demo_env ''listRelatives'' True SCOPE_NODE [PStr ''pCube1''] [] 0)
       \<noteq> Inr PNone"
  by (simp add: demo_env_def pymaya_cmd_wrap_def wrap_known_node_def obj_to_name_args_def
      obj_to_name_kwargs_def SCOPE_NODE_def SCOPE_ATTR_def)

lemma wrap_rewraps:
  assumes "cmds env name (obj_to_name_args env h args) (obj_to_name_kwargs env h kwargs) h = (Inr res, h1)"
    and "(if suffix ''Constraint'' name \<and> ''query'' \<notin> set (map fst (obj_to_name_kwargs env h kwargs))
          then (if py_truthy env res then py_getitem env res 0 else Inr PNone)
          else Inr res) = Inr res1"
    and "wrap_known_node env scope (obj_to_name_args env h args) h1 = (Inr known, h2)"
  shows "pymaya_cmd_wrap env name True scope args kwargs h =
           (Inr (name_to_obj env h2 scope known
                   (if prefix ''list'' name \<and> res1 = PNone then PList [] else res1)), h2)"
  using assms
  by (simp add: pymaya_cmd_wrap_def Let_def)

text \<open>
  Claim C3, amended. A wrapper created with \<^verbatim>\<open>wrap_object=True\<close> re-wraps the result
  \<open>res\<close> of its host command after two replacements: for a command whose name ends with
  \<^verbatim>\<open>Constraint\<close>, called without a \<^verbatim>\<open>query\<close> keyword, the first element of the
  result, or \<^verbatim>\<open>None\<close> when the result is false; then, for a command whose name starts
  with \<^verbatim>\<open>list\<close>, the empty list in place of \<^verbatim>\<open>None\<close>. In the value so obtained
  \<^verbatim>\<open>None\<close> stays \<^verbatim>\<open>None\<close>, a list or a tuple is mapped element by element into a
  list or a tuple, a set into the set of its mapped elements, a string on which binding
  succeeds becomes the handle that binding returns, and a string on which binding raises
  stays that string. The name bound is the string itself, or \<^verbatim>\<open>node.string\<close> in
  attribute scope with a known node. Every other value (a boolean, a number, a dict, a
  handle, a vector, a point, a matrix, any other object) is returned unchanged.
\<close>

theorem wrapped_results_are_rewrapped:
  assumes "cmds env name (obj_to_name_args env h args) (obj_to_name_kwargs env h kwargs) h = (Inr res, h1)"
    and "(if suffix ''Constraint'' name \<and> ''query'' \<notin> set (map fst (obj_to_name_kwargs env h kwargs))
          then (if py_truthy env res then py_getitem env res 0 else Inr PNone)
          else Inr res) = Inr res1"
    and "wrap_known_node env scope (obj_to_name_args env h args) h1 = (Inr known, h2)"
  shows "pymaya_cmd_wrap env name True scope args kwargs h =
           (Inr (name_to_obj env h2 scope known
                   (if prefix ''list'' name \<and> res1 = PNone then PList [] else res1)), h2)
    \<and> name_to_obj env h2 scope known PNone = PNone
    \<and> name_to_obj env h2 scope known (PList xs) = PList (map (name_to_obj env h2 scope known) xs)
    \<and> name_to_obj env h2 scope known (PTuple xs) = PTuple (map (name_to_obj env h2 scope known) xs)
    \<and> name_to_obj env h2 scope known (PSet xs) =
        PSet (remdups (map (name_to_obj env h2 scope known) xs))
    \<and> (PyNode env h2 (if scope = SCOPE_ATTR \<and> known \<noteq> PNone
                         then py_str env known @ ''.'' @ s else s) = Inr ob \<longrightarrow>
         name_to_obj env h2 scope known (PStr s) = ob)
    \<and> (PyNode env h2 (if scope = SCOPE_ATTR \<and> known \<noteq> PNone
                         then py_str env known @ ''.'' @ s else s) = Inl e \<longrightarrow>
         name_to_obj env h2 scope known (PStr s) = PStr s)
    \<and> name_to_obj env h2 scope known (PBool b) = PBool b
    \<and> name_to_obj env h2 scope known (PInt i) = PInt i
    \<and> name_to_obj env h2 scope known (PFloat r) = PFloat r
    \<and> name_to_obj env h2 scope known (PDict kvs) = PDict kvs
    \<and> name_to_obj env h2 scope known (PBase j) = PBase j
    \<and> name_to_obj env h2 scope known (PGeom j) = PGeom j
    \<and> name_to_obj env h2 scope known (PVector x y z) = PVector x y z
    \<and> name_to_obj env h2 scope known (PPoint x y z w) = PPoint x y z w
    \<and> name_to_obj env h2 scope known (PMatrix m0 m1 m2 m3) = PMatrix m0 m1 m2 m3
    \<and> name_to_obj env h2 scope known (POther j) = POther j"
  using wrap_rewraps [OF assms] by simp

theorem wrapped_results_are_rewrapped_witness:
  "pymaya_cmd_wrap demo_env ''ls'' True SCOPE_NODE [] [] 0 = (Inr (PList [PBase 0]), 1)
   \<and> pymaya_cmd_wrap demo_env ''listRelatives'' True SCOPE_NODE [PStr ''pCube1''] [] 0
       = (Inr (PList []), 1)
   \<and> pymaya_cmd_wrap demo_env ''parentConstraint'' True SCOPE_NODE
         [PStr ''pCubeShape1'', PStr ''pCube1''] [] 0 = (Inr (PBase 18), 1)
   \<and> name_to_obj demo_env 1 SCOPE_NODE PNone (PStr ''ghost'') = PStr ''ghost''
   \<and> name_to_obj demo_env 1 SCOPE_NODE PNone (PInt 3) = PInt 3"
proof -
  have known: "wrap_known_node demo_env SCOPE_NODE a 1 = (Inr PNone, 1)" for a
    by (simp add: wrap_known_node_def SCOPE_NODE_def SCOPE_ATTR_def)
  have ls: "cmds demo_env ''ls'' (obj_to_name_args demo_env 0 []) (obj_to_name_kwargs demo_env 0 []) 0
      = (Inr (PList [PStr ''pCube1'']), 1)"
    by (simp add: demo_env_def obj_to_name_args_def obj_to_name_kwargs_def)
  have ls_kept: "(if suffix ''Constraint'' ''ls''
          \<and> ''query'' \<notin> set (map fst (obj_to_name_kwargs demo_env 0 []))
        then (if py_truthy demo_env (PList [PStr ''pCube1''])
              then py_getitem demo_env (PList [PStr ''pCube1'']) 0 else Inr PNone)
        else Inr (PList [PStr ''pCube1''])) = Inr (PList [PStr ''pCube1''])"
    by (simp add: suffix_to_prefix)
  have rel: "cmds demo_env ''listRelatives'' (obj_to_name_args demo_env 0 [PStr ''pCube1''])
      (obj_to_name_kwargs demo_env 0 []) 0 = (Inr PNone, 1)"
    by (simp add: demo_env_def obj_to_name_args_def obj_to_name_kwargs_def)
  have rel_kept: "(if suffix ''Constraint'' ''listRelatives''
          \<and> ''query'' \<notin> set (map fst (obj_to_name_kwargs demo_env 0 []))
        then (if py_truthy demo_env PNone then py_getitem demo_env PNone 0 else Inr PNone)
        else Inr PNone) = Inr PNone"
    by (simp add: suffix_to_prefix)
  have con: "cmds demo_env ''parentConstraint''
      (obj_to_name_args demo_env 0 [PStr ''pCubeShape1'', PStr ''pCube1''])
      (obj_to_name_kwargs demo_env 0 []) 0 = (Inr (PList [PStr ''pCube1_parentConstraint1'']), 1)"
    by (simp add: demo_env_def obj_to_name_args_def obj_to_name_kwargs_def)
  have con_first: "(if suffix ''Constraint'' ''parentConstraint''
          \<and> ''query'' \<notin> set (map fst (obj_to_name_kwargs demo_env 0 []))
        then (if py_truthy demo_env (PList [PStr ''pCube1_parentConstraint1''])
              then py_getitem demo_env (PList [PStr ''pCube1_parentConstraint1'']) 0
              else Inr PNone)
        else Inr (PList [PStr ''pCube1_parentConstraint1'']))
      = Inr (PStr ''pCube1_parentConstraint1'')"
    by (simp add: suffix_to_prefix obj_to_name_kwargs_def)
  have bound: "PyNode demo_env 1 ''pCube1'' = Inr (PBase 0)"
    "PyNode demo_env 1 ''pCube1_parentConstraint1'' = Inr (PBase 18)"
    "PyNode demo_env 1 ''ghost'' = Inl (Exc MayaNodeError [PStr ''ghost''])"
    by (simp_all add: demo_env_def)
  have scope: "\<not> (SCOPE_NODE = SCOPE_ATTR \<and> PNone \<noteq> PNone)"
    by simp
  from wrapped_results_are_rewrapped [OF ls ls_kept known, of "[PStr ''pCube1'']" "''pCube1''"
      "PBase 0" "Exc MayaNodeError [PStr ''ghost'']"] bound scope
  have r1: "pymaya_cmd_wrap demo_env ''ls'' True SCOPE_NODE [] [] 0 = (Inr (PList [PBase 0]), 1)"
    by simp
  from wrapped_results_are_rewrapped [OF rel rel_kept known]
  have r2: "pymaya_cmd_wrap demo_env ''listRelatives'' True SCOPE_NODE [PStr ''pCube1''] [] 0
       = (Inr (PList []), 1)"
    by simp
  from wrapped_results_are_rewrapped [OF con con_first known, of "[]" "''pCube1_parentConstraint1''"
      "PBase 18" "Exc MayaNodeError [PStr ''ghost'']"] bound scope
  have r3: "pymaya_cmd_wrap demo_env ''parentConstraint'' True SCOPE_NODE
         [PStr ''pCubeShape1'', PStr ''pCube1''] [] 0 = (Inr (PBase 18), 1)"
    by (simp add: prefix_def)
  from wrapped_results_are_rewrapped [OF ls ls_kept known, of "[]" "''ghost''"
      "PBase 0" "Exc MayaNodeError [PStr ''ghost'']" False 3] bound scope
  have r4: "name_to_obj demo_env 1 SCOPE_NODE PNone (PStr ''ghost'') = PStr ''ghost''
      \<and> name_to_obj demo_env 1 SCOPE_NODE PNone (PInt 3) = PInt 3"
    by simp
  from r1 r2 r3 r4 show ?thesis by simp
qed

section \<open>Properties of the node handles\<close>

subsection \<open>Methods bound at construction\<close>

lemma Node_init_object:
  assumes "Node_init env api h a = Inr n"
  shows "n = Node_of_object api h (node_obj n) \<and> hasFn api h (node_obj n) kDependencyNode"
proof -
  from assms obtain ob where ob: "n = Node_of_object api h ob" "hasFn api h ob kDependencyNode"
    by (auto simp: Node_init_def split: init_arg.splits sum.splits option.splits if_splits)
  have "node_obj (Node_of_object api h ob) = ob"
    by (simp add: Node_of_object_def)
  with ob show ?thesis by simp
qed

lemma Node_of_object_methods:
  "node_methods (Node_of_object api h ob) =
     (if hasFn api h ob kDagNode
      then dag_methods @ (if hasFn api h ob kTransform then transform_methods else [])
      else [])"
  by (simp add: Node_of_object_def)

text \<open>
  Claim C4. For a handle that \<^verbatim>\<open>_Node.__init__\<close> constructs, \<^verbatim>\<open>getParent\<close>,
  \<^verbatim>\<open>getChildren\<close> and \<^verbatim>\<open>addChild\<close> are bound on the instance exactly when the object
  has the function set \<^verbatim>\<open>kDagNode\<close>, and the transform methods exactly when it has
  \<^verbatim>\<open>kTransform\<close>; a handle of an object without \<^verbatim>\<open>kDagNode\<close> has no method bound.
  The constructor asks for \<^verbatim>\<open>kTransform\<close> only inside the branch of a DAG node; in
  the host every transform is a DAG node, which is the second hypothesis.
\<close>

theorem Node_init_binds_methods:
  assumes "Node_init env api h a = Inr n"
    and "hasFn api h (node_obj n) kTransform \<longrightarrow> hasFn api h (node_obj n) kDagNode"
  shows "(\<forall>m \<in> set [''getParent'', ''getChildren'', ''addChild''].
            (m \<in> set (map fst (node_methods n))) = hasFn api h (node_obj n) kDagNode)
       \<and> (\<forall>m \<in> set [''getBoundingBox'', ''getPivots'', ''getTransformation'', ''getShape'',
                      ''getShapes'', ''getMatrix'', ''setMatrix'', ''getTranslation'',
                      ''setTranslation'', ''getRotation'', ''setRotation'', ''getScale'',
                      ''setScale''].
            (m \<in> set (map fst (node_methods n))) = hasFn api h (node_obj n) kTransform)
       \<and> (\<not> hasFn api h (node_obj n) kDagNode \<longrightarrow> node_methods n = [])"
proof -
  from assms(1) have "n = Node_of_object api h (node_obj n)"
    by (simp add: Node_init_object)
  then have m: "node_methods n =
     (if hasFn api h (node_obj n) kDagNode
      then dag_methods @ (if hasFn api h (node_obj n) kTransform then transform_methods else [])
      else [])"
    using Node_of_object_methods [of api h "node_obj n"] by simp
  have keys: "map fst (node_methods n) =
     (if hasFn api h (node_obj n) kDagNode
      then [''getParent'', ''getChildren'', ''addChild'']
           @ (if hasFn api h (node_obj n) kTransform
              then [''getBoundingBox'', ''getPivots'', ''setTransformation'', ''getTransformation'',
                    ''getShape'', ''getShapes'', ''setMatrix'', ''getMatrix'', ''getTranslation'',
                    ''setTranslation'', ''setRotation'', ''getRotation'', ''getScale'', ''setScale'']
              else [])
      else [])"
    by (simp add: m dag_methods_def transform_methods_def)
  show ?thesis
  proof (cases "hasFn api h (node_obj n) kDagNode")
    case False
    with assms(2) have "\<not> hasFn api h (node_obj n) kTransform" by blast
    with False show ?thesis by (simp add: m)
  next
    case dag: True
    show ?thesis
    proof (cases "hasFn api h (node_obj n) kTransform")
      case True
      with dag show ?thesis by (simp add: keys)
    next
      case False
      with dag show ?thesis by (simp add: keys)
    qed
  qed
qed

theorem Node_init_binds_methods_witness:
  "Node_init demo_env demo_api 0 (ArgValue (PStr ''pCube1'')) = Inr (Node_of_object demo_api 0 0)
   \<and> ''getParent'' \<in> set (map fst (node_methods (Node_of_object demo_api 0 0)))
   \<and> ''getShape'' \<in> set (map fst (node_methods (Node_of_object demo_api 0 0)))
   \<and> Node_init demo_env demo_api 0 (ArgValue (PStr ''lambert1'')) = Inr (Node_of_object demo_api 0 2)
   \<and> node_methods (Node_of_object demo_api 0 2) = []"
proof -
  have cube: "Node_init demo_env demo_api 0 (ArgValue (PStr ''pCube1'')) = Inr (Node_of_object demo_api 0 0)"
    by (simp add: Node_init_def getObjectFromName_def demo_api_def)
  have shader: "Node_init demo_env demo_api 0 (ArgValue (PStr ''lambert1'')) = Inr (Node_of_object demo_api 0 2)"
    by (simp add: Node_init_def getObjectFromName_def demo_api_def)
  have objs: "node_obj (Node_of_object demo_api 0 0) = 0" "node_obj (Node_of_object demo_api 0 2) = 2"
    by (simp_all add: Node_of_object_def)
  have caps: "hasFn demo_api 0 0 kDagNode" "hasFn demo_api 0 0 kTransform"
    "\<not> hasFn demo_api 0 2 kDagNode" "\<not> hasFn demo_api 0 2 kTransform"
    by (simp_all add: demo_api_def)
  from Node_init_binds_methods [OF cube] objs caps
  have "''getParent'' \<in> set (map fst (node_methods (Node_of_object demo_api 0 0)))
      \<and> ''getShape'' \<in> set (map fst (node_methods (Node_of_object demo_api 0 0)))"
    by simp
  moreover from Node_init_binds_methods [OF shader] objs caps
  have "node_methods (Node_of_object demo_api 0 2) = []"
    by simp
  ultimately show ?thesis using cube shader by simp
qed

subsection \<open>Host errors\<close>

lemma getAttr_error:
  assumes "cmds env ''getAttr'' (obj_to_name_args env h args) (obj_to_name_kwargs env h kwargs) h = (Inl e, h1)"
  shows "getAttr (logged env) args kwargs (h, tr) =
     (Inl (Exc MayaAttributeError (exc_args e)),
      (h1, tr @ [CmdCall ''getAttr'' (obj_to_name_args env h args) (obj_to_name_kwargs env h kwargs)]))"
  using assms
  by (simp add: getAttr_def Let_def obj_to_name_args_logged obj_to_name_kwargs_logged cmds_logged)

lemma setAttr_error:
  assumes "cmds env ''setAttr'' (setAttr_fargs env h args)
             (setAttr_kwargs (setAttr_fargs env h args) (obj_to_name_kwargs env h kwargs)) h = (Inl e, h1)"
  shows "setAttr (logged env) args kwargs (h, tr) =
     (Inl (Exc MayaAttributeError (exc_args e)),
      (h1, tr @ [CmdCall ''setAttr'' (setAttr_fargs env h args)
                   (setAttr_kwargs (setAttr_fargs env h args) (obj_to_name_kwargs env h kwargs))]))"
  using assms
  by (simp add: setAttr_def Let_def setAttr_fargs_logged obj_to_name_kwargs_logged cmds_logged)

lemma Node_init_no_such_node:
  assumes "MSelectionList_add api h (PStr name) = Some (Exc RuntimeError a)"
  shows "Node_init env api h (ArgValue (PStr name)) =
           Inl (Exc MayaNodeError [PStr (''No such node '' @ [CHR 0x27] @ name @ [CHR 0x27])])"
  using assms by (simp add: Node_init_def getObjectFromName_def)

text \<open>
  What the wrappers translate. When the host command that \<^verbatim>\<open>getAttr\<close> forwards its
  arguments to raises an exception \<open>e\<close>, \<^verbatim>\<open>getAttr\<close> raises
  \<^verbatim>\<open>MayaAttributeError\<close> with the arguments of \<open>e\<close>, and that call is the only one the
  host receives; the same holds for \<^verbatim>\<open>setAttr\<close>. Constructing a handle from a name that
  the selection list cannot resolve (\<^verbatim>\<open>MSelectionList.add\<close> raises \<^verbatim>\<open>RuntimeError\<close>)
  raises \<^verbatim>\<open>MayaNodeError\<close>.
\<close>

lemma host_errors_are_translated:
  "(cmds env ''getAttr'' (obj_to_name_args env h args) (obj_to_name_kwargs env h kwargs) h = (Inl e, h1) \<longrightarrow>
      getAttr (logged env) args kwargs (h, tr) =
        (Inl (Exc MayaAttributeError (exc_args e)),
         (h1, tr @ [CmdCall ''getAttr'' (obj_to_name_args env h args) (obj_to_name_kwargs env h kwargs)])))
   \<and> (cmds env ''setAttr'' (setAttr_fargs env h args)
         (setAttr_kwargs (setAttr_fargs env h args) (obj_to_name_kwargs env h kwargs)) h = (Inl e, h1) \<longrightarrow>
      setAttr (logged env) args kwargs (h, tr) =
        (Inl (Exc MayaAttributeError (exc_args e)),
         (h1, tr @ [CmdCall ''setAttr'' (setAttr_fargs env h args)
                      (setAttr_kwargs (setAttr_fargs env h args) (obj_to_name_kwargs env h kwargs))])))
   \<and> (MSelectionList_add api h (PStr name) = Some (Exc RuntimeError a) \<longrightarrow>
      Node_init env api h (ArgValue (PStr name)) =
        Inl (Exc MayaNodeError [PStr (''No such node '' @ [CHR 0x27] @ name @ [CHR 0x27])]))"
  using getAttr_error [of env h args kwargs e h1 tr] setAttr_error [of env h args kwargs e h1 tr]
    Node_init_no_such_node [of api h name a env]
  by blast

lemma host_errors_are_translated_example:
  "getAttr (logged demo_env) [PStr ''ghost.tx''] [] (0, []) =
     (Inl (Exc MayaAttributeError [PStr ''No object matches name: ghost.tx'']),
      (1, [CmdCall ''getAttr'' [PStr ''ghost.tx''] []]))
   \<and> setAttr (logged demo_env) [PStr ''ghost.tx''] [] (0, []) =
     (Inl (Exc MayaAttributeError [PStr ''No object matches name: ghost.tx'']),
      (1, [CmdCall ''setAttr'' [PStr ''ghost.tx''] []]))
   \<and> Node_init demo_env demo_api 0 (ArgValue (PStr ''ghost'')) =
     Inl (Exc MayaNodeError [PStr (''No such node '' @ [CHR 0x27] @ ''ghost'' @ [CHR 0x27])])"
  using host_errors_are_translated
    [of demo_env 0 "[PStr ''ghost.tx'']" "[]"
        "Exc RuntimeError [PStr ''No object matches name: ghost.tx'']" 1 "[]"
        demo_api "''ghost''" "[PStr ''(kInvalidParameter): Object does not exist'']"]
  by (simp add: demo_env_def demo_api_def obj_to_name_args_def obj_to_name_kwargs_def
      setAttr_fargs_def setAttr_kwargs_def)

text \<open>
  Claim C1 says that \<^verbatim>\<open>getAttr\<close> raises \<^verbatim>\<open>MayaAttributeError\<close> in every call in
  which the host command raises. \<^verbatim>\<open>getAttr\<close> calls the host command a second time, for
  the type of the attribute, when the first call returns a non-empty list (line 293);
  that call is outside the \<^verbatim>\<open>try\<close> block that translates the exceptions of the first
  one. On a host whose type query raises, \<^verbatim>\<open>getAttr\<close> makes both calls and the
  \<^verbatim>\<open>RuntimeError\<close> of the host reaches the caller as it is.
\<close>

theorem getAttr_type_query_error_untranslated:
  "getAttr (logged type_query_env) [PStr ''pCube1.t''] [] (0, []) =
     (Inl (Exc RuntimeError [PStr ''The type of the attribute cannot be read'']),
      (2, [CmdCall ''getAttr'' [PStr ''pCube1.t''] [],
           CmdCall ''getAttr'' [PStr ''pCube1.t''] [(''type'', PBool True)]]))"
  by (simp add: getAttr_def Let_def obj_to_name_args_def obj_to_name_kwargs_def cmds_logged
      type_query_env_def)

subsection \<open>The caches of names\<close>

text \<open>
  Claim C8, as stated, fails for the registry: \<^verbatim>\<open>registerClass\<close> is an operation of
  this layer and replaces the class registered for a type name. After \<^verbatim>\<open>Mesh\<close> is
  registered for \<^verbatim>\<open>mesh\<close>, \<^verbatim>\<open>getTypeClass\<close> returns it; after a second registration
  for the same name, \<^verbatim>\<open>getTypeClass\<close> returns the other class.
\<close>

theorem registered_class_replaced_counterexample:
  "fst (getTypeClass demo_env ''mesh''
          (snd (registerClass ''mesh'' (Some (Class ''Mesh'')) ([], 0))) 0)
     = Inr (Some (Class ''Mesh''))
   \<and> fst (getTypeClass demo_env ''mesh''
          (snd (registerClass ''mesh'' (Some (Class ''MyMesh''))
                 (snd (registerClass ''mesh'' (Some (Class ''Mesh'')) ([], 0))))) 0)
     = Inr (Some (Class ''MyMesh''))"
  by (simp add: getTypeClass_def registerClass_def)

lemma Node_attr_hit:
  assumes "map_of (node_attrs n) name = Some a"
  shows "Node_attr env api name checkShape (n, h, created) = (Inr a, n, h, created)"
  using assms by (simp add: Node_attr_def)

lemma Node_attr_stores:
  assumes "Node_attr env api name checkShape (n, h, created) = (Inr a, n1, h1, created1)"
  shows "map_of (node_attrs n1) name = Some a"
  using assms
  by (auto simp: Node_attr_def Let_def update_conv' split: option.splits prod.splits sum.splits)

lemma Node_attr_preserves:
  assumes "map_of (node_attrs n) name = Some a"
  shows "map_of (node_attrs (fst (snd (Node_attr env api name' checkShape (n, h, created))))) name = Some a"
proof (cases "name' = name")
  case True
  with assms show ?thesis by (simp add: Node_attr_hit)
next
  case False
  with assms show ?thesis
    by (auto simp: Node_attr_def Let_def update_conv' split: option.splits prod.splits sum.splits)
qed

lemma Node_attr_calls_preserve:
  assumes "map_of (node_attrs (fst st)) name = Some a"
  shows "map_of (node_attrs (fst (Node_attr_calls env api later st))) name = Some a"
  using assms
proof (induction later arbitrary: st)
  case Nil
  then show ?case by simp
next
  case (Cons x later)
  obtain name' cs h where x: "x = (name', cs, h)" by (cases x)
  obtain r n1 h1 c1 where step: "Node_attr env api name' cs (fst st, h, snd st) = (r, n1, h1, c1)"
    by (cases "Node_attr env api name' cs (fst st, h, snd st)")
  have "map_of (node_attrs n1) name = Some a"
    using Node_attr_preserves [OF Cons.prems, of env api name' cs h "snd st"] step by simp
  then have "map_of (node_attrs (fst (Node_attr_calls env api later (n1, c1)))) name = Some a"
    using Cons.IH [of "(n1, c1)"] by simp
  then show ?case by (simp add: x step)
qed

lemma registerClass_preserves:
  assumes "map_of (fst st) typename = Some c" and "t \<noteq> typename"
  shows "map_of (fst (snd (registerClass t cls st))) typename = Some c"
  using assms
  by (cases st) (auto simp: registerClass_def update_conv' split: option.splits list.splits)

lemma getTypeClass_hit:
  assumes "map_of (fst st) typename = Some c"
  shows "getTypeClass env typename st h = (Inr (Some c), st, h)"
  using assms by (simp add: getTypeClass_def)

lemma getTypeClass_preserves:
  assumes "map_of (fst st) typename = Some c"
  shows "map_of (fst (fst (snd (getTypeClass env t st h)))) typename = Some c"
proof (cases "t = typename")
  case True
  with assms show ?thesis by (simp add: getTypeClass_hit)
next
  case False
  have reg: "map_of (fst (snd (registerClass t None st))) typename = Some c"
    using assms False by (rule registerClass_preserves)
  show ?thesis
    using assms reg
    by (auto simp: getTypeClass_def split: option.splits prod.splits sum.splits bool.splits)
qed

lemma getTypeClass_stores:
  assumes "getTypeClass env typename st h = (Inr (Some c), st1, h1)"
  shows "map_of (fst st1) typename = Some c"
  using assms
  by (auto simp: getTypeClass_def split: option.splits prod.splits sum.splits bool.splits)

lemma registerClass_stores:
  assumes "registerClass typename (Some c) st = (r, st1)"
  shows "r = Inr () \<and> map_of (fst st1) typename = Some c"
  using assms by (cases st) (auto simp: registerClass_def update_conv')

lemma NodeTypes_run_preserves:
  assumes "map_of (fst st) typename = Some c" and "\<not> list_ex (registers typename) ops"
  shows "map_of (fst (NodeTypes_run env ops st)) typename = Some c"
  using assms
proof (induction ops arbitrary: st)
  case Nil
  then show ?case by simp
next
  case (Cons op ops)
  show ?case
  proof (cases op)
    case (GetTypeClass t h)
    with Cons.prems have "map_of (fst (fst (snd (getTypeClass env t st h)))) typename = Some c"
      by (simp add: getTypeClass_preserves)
    with Cons GetTypeClass show ?thesis by simp
  next
    case (RegisterClass t cls)
    with Cons.prems have "t \<noteq> typename" by simp
    with Cons.prems have "map_of (fst (snd (registerClass t cls st))) typename = Some c"
      by (simp add: registerClass_preserves)
    with Cons RegisterClass show ?thesis by simp
  qed
qed

text \<open>
  Claim C8, amended. \<^verbatim>\<open>attr\<close> and \<^verbatim>\<open>getTypeClass\<close> write their caches on a miss
  only and never replace an entry. Once \<^verbatim>\<open>attr(name)\<close> has returned an attribute
  object, the cache holds it, and after any run of further \<^verbatim>\<open>attr\<close> calls on the
  handle \<^verbatim>\<open>attr(name)\<close> returns that same object, with no object created and the host
  untouched. Once a class is registered for a type name (by \<^verbatim>\<open>registerClass\<close> or by
  \<^verbatim>\<open>getTypeClass\<close> on a miss), \<^verbatim>\<open>getTypeClass\<close> returns that class after any run of
  operations in which \<^verbatim>\<open>registerClass\<close> is not called again for that name.
\<close>

theorem caches_keep_their_entries:
  "(Node_attr env api name checkShape (n, h, created) = (Inr a, n1, h1, created1) \<longrightarrow>
      map_of (node_attrs n1) name = Some a
      \<and> Node_attr env api name checkShape2
           (fst (Node_attr_calls env api later (n1, created1)), h2,
            snd (Node_attr_calls env api later (n1, created1))) =
         (Inr a, fst (Node_attr_calls env api later (n1, created1)), h2,
          snd (Node_attr_calls env api later (n1, created1))))
   \<and> (registerClass typename (Some c) st = (r, st1) \<longrightarrow> map_of (fst st1) typename = Some c)
   \<and> (getTypeClass env typename st h = (Inr (Some c), st1, h1) \<longrightarrow>
        map_of (fst st1) typename = Some c)
   \<and> (map_of (fst st1) typename = Some c \<and> \<not> list_ex (registers typename) ops \<longrightarrow>
        getTypeClass env typename (NodeTypes_run env ops st1) h3 =
          (Inr (Some c), NodeTypes_run env ops st1, h3))"
proof -
  have attr: "map_of (node_attrs n1) name = Some a
      \<and> Node_attr env api name checkShape2
           (fst (Node_attr_calls env api later (n1, created1)), h2,
            snd (Node_attr_calls env api later (n1, created1))) =
         (Inr a, fst (Node_attr_calls env api later (n1, created1)), h2,
          snd (Node_attr_calls env api later (n1, created1)))"
    if first: "Node_attr env api name checkShape (n, h, created) = (Inr a, n1, h1, created1)"
  proof -
    from first have stored: "map_of (node_attrs n1) name = Some a"
      by (rule Node_attr_stores)
    then have "map_of (node_attrs (fst (Node_attr_calls env api later (n1, created1)))) name = Some a"
      using Node_attr_calls_preserve [of "(n1, created1)" name a env api later] by simp
    then show ?thesis
      using stored by (simp add: Node_attr_hit)
  qed
  have types: "getTypeClass env typename (NodeTypes_run env ops st1) h3 =
          (Inr (Some c), NodeTypes_run env ops st1, h3)"
    if "map_of (fst st1) typename = Some c" and "\<not> list_ex (registers typename) ops"
    using that by (simp add: NodeTypes_run_preserves getTypeClass_hit)
  show ?thesis
    using attr types registerClass_stores [of typename c st r st1]
      getTypeClass_stores [of env typename st h c st1 h1]
    by blast
qed

theorem caches_keep_their_entries_witness:
  "Node_attr demo_env demo_api ''tx'' True (Node_of_object demo_api 0 0, 0, 0) =
     (Inr (Attribute 0 2),
      (Node_of_object demo_api 0 0)\<lparr>node_attrs := [(''tx'', Attribute 0 2)]\<rparr>, 0, 1)
   \<and> Node_attr demo_env demo_api ''tx'' True
        (fst (Node_attr_calls demo_env demo_api [(''ty'', True, 0)]
                ((Node_of_object demo_api 0 0)\<lparr>node_attrs := [(''tx'', Attribute 0 2)]\<rparr>, 1)), 0,
         snd (Node_attr_calls demo_env demo_api [(''ty'', True, 0)]
                ((Node_of_object demo_api 0 0)\<lparr>node_attrs := [(''tx'', Attribute 0 2)]\<rparr>, 1))) =
       (Inr (Attribute 0 2),
        fst (Node_attr_calls demo_env demo_api [(''ty'', True, 0)]
                ((Node_of_object demo_api 0 0)\<lparr>node_attrs := [(''tx'', Attribute 0 2)]\<rparr>, 1)), 0,
        snd (Node_attr_calls demo_env demo_api [(''ty'', True, 0)]
                ((Node_of_object demo_api 0 0)\<lparr>node_attrs := [(''tx'', Attribute 0 2)]\<rparr>, 1)))
   \<and> getTypeClass demo_env ''mesh''
        (NodeTypes_run demo_env [GetTypeClass ''joint'' 0, RegisterClass ''joint'' None]
           ([(''mesh'', Class ''Mesh'')], 0)) 0 =
       (Inr (Some (Class ''Mesh'')),
        NodeTypes_run demo_env [GetTypeClass ''joint'' 0, RegisterClass ''joint'' None]
           ([(''mesh'', Class ''Mesh'')], 0), 0)"
proof -
  let ?n1 = "(Node_of_object demo_api 0 0)\<lparr>node_attrs := [(''tx'', Attribute 0 2)]\<rparr>"
  have first: "Node_attr demo_env demo_api ''tx'' True (Node_of_object demo_api 0 0, 0, 0) =
      (Inr (Attribute 0 2), ?n1, 0, 1)"
    by (simp add: Node_attr_def attr_plug_def demo_api_def Node_of_object_def is_digit_def)
  have registered: "map_of (fst ([(''mesh'', Class ''Mesh'')], 0 :: nat)) ''mesh'' = Some (Class ''Mesh'')
      \<and> \<not> list_ex (registers ''mesh'') [GetTypeClass ''joint'' (0 :: nat), RegisterClass ''joint'' None]"
    by simp
  have reg: "registerClass ''mesh'' (Some (Class ''Mesh'')) ([(''mesh'', Class ''Mesh'')], 0)
      = (Inr (), ([(''mesh'', Class ''Mesh'')], 0))"
    by (simp add: registerClass_def)
  have get: "getTypeClass demo_env ''mesh'' ([(''mesh'', Class ''Mesh'')], 0) 0
      = (Inr (Some (Class ''Mesh'')), ([(''mesh'', Class ''Mesh'')], 0), 0)"
    by (simp add: getTypeClass_def)
  from caches_keep_their_entries
    [where env = demo_env and api = demo_api and name = "''tx''" and checkShape = True
       and n = "Node_of_object demo_api 0 0" and h = 0 and created = 0 and a = "Attribute 0 2"
       and ?n1.0 = ?n1 and ?h1.0 = 0 and ?created1.0 = 1 and ?checkShape2.0 = True
       and later = "[(''ty'', True, 0)]" and ?h2.0 = 0
       and typename = "''mesh''" and c = "Class ''Mesh''"
       and st = "([(''mesh'', Class ''Mesh'')], 0)" and r = "Inr ()"
       and ?st1.0 = "([(''mesh'', Class ''Mesh'')], 0)"
       and ops = "[GetTypeClass ''joint'' 0, RegisterClass ''joint'' None]" and ?h3.0 = 0]
    first registered reg get
  show ?thesis by blast
qed

section \<open>Properties of the MEL proxy\<close>

lemma Mel_hit:
  assumes "map_of (fst st) name = Some w" and "\<not> ordinary name"
  shows "Mel_getattribute env ordinary name st h = (Inr (Callable w), st, h)"
  using assms by (cases st) (simp add: Mel_getattribute_def)

lemma Mel_stores:
  assumes "Mel_getattribute env ordinary name st h = (Inr (Callable w), st1, h1)"
  shows "map_of (fst st1) name = Some w \<and> \<not> ordinary name"
  using assms
  by (cases st)
     (auto simp: Mel_getattribute_def update_conv' split: if_splits option.splits prod.splits
        sum.splits bool.splits)

lemma Mel_preserves:
  assumes "map_of (fst st) name = Some w"
  shows "map_of (fst (fst (snd (Mel_getattribute env ordinary name' st h)))) name = Some w"
proof (cases "name' = name")
  case True
  with assms show ?thesis
    by (cases st) (simp add: Mel_getattribute_def)
next
  case False
  with assms show ?thesis
    by (cases st)
       (auto simp: Mel_getattribute_def update_conv' split: if_splits option.splits prod.splits
          sum.splits bool.splits)
qed

lemma Mel_lookups_preserve:
  assumes "map_of (fst st) name = Some w"
  shows "map_of (fst (Mel_lookups env ordinary later st)) name = Some w"
  using assms
proof (induction later arbitrary: st)
  case Nil
  then show ?case by simp
next
  case (Cons x later)
  obtain name' h where x: "x = (name', h)" by (cases x)
  show ?case
    unfolding x Mel_lookups.simps
    by (rule Cons.IH) (rule Mel_preserves [OF Cons.prems])
qed

text \<open>
  Claim C7. When a lookup of \<open>name\<close> on the proxy resolves to a host command or a MEL
  procedure and returns the callable \<open>w\<close> built for it, \<open>w\<close> is in the cache under
  \<open>name\<close>; after any run of further lookups, from any host states, a lookup of \<open>name\<close>
  returns the same object \<open>w\<close> and leaves the cache, the number of objects created and
  the host with its record of calls as they were: nothing is rebuilt and the host is not
  asked.
\<close>

theorem Mel_lookup_cached:
  assumes "Mel_getattribute (logged env) ordinary name st (h, tr) = (Inr (Callable w), st1, s1)"
  shows "map_of (fst st1) name = Some w
       \<and> Mel_getattribute (logged env) ordinary name
            (Mel_lookups (logged env) ordinary later st1) s =
          (Inr (Callable w), Mel_lookups (logged env) ordinary later st1, s)"
proof -
  from Mel_stores [OF assms] have stored: "map_of (fst st1) name = Some w" and no: "\<not> ordinary name"
    by simp_all
  from stored have "map_of (fst (Mel_lookups (logged env) ordinary later st1)) name = Some w"
    by (rule Mel_lookups_preserve)
  then have "Mel_getattribute (logged env) ordinary name
            (Mel_lookups (logged env) ordinary later st1) s =
          (Inr (Callable w), Mel_lookups (logged env) ordinary later st1, s)"
    using no by (rule Mel_hit)
  with stored show ?thesis by simp
qed

theorem Mel_lookup_cached_witness:
  "Mel_getattribute (logged demo_env) demo_ordinary ''ls'' ([], 0) (0, []) =
     (Inr (Callable (CmdWrapper 0 ''ls'')), ([(''ls'', CmdWrapper 0 ''ls'')], 1), (0, []))
   \<and> Mel_getattribute (logged demo_env) demo_ordinary ''ls''
        (Mel_lookups (logged demo_env) demo_ordinary [(''myProc'', (0, []))]
           ([(''ls'', CmdWrapper 0 ''ls'')], 1)) (7, []) =
       (Inr (Callable (CmdWrapper 0 ''ls'')),
        Mel_lookups (logged demo_env) demo_ordinary [(''myProc'', (0, []))]
           ([(''ls'', CmdWrapper 0 ''ls'')], 1), (7, []))"
proof -
  have first: "Mel_getattribute (logged demo_env) demo_ordinary ''ls'' ([], 0) (0, []) =
     (Inr (Callable (CmdWrapper 0 ''ls'')), ([(''ls'', CmdWrapper 0 ''ls'')], 1), (0, []))"
    by (simp add: Mel_getattribute_def demo_ordinary_def logged_simps demo_env_def)
  from Mel_lookup_cached [OF first, of "[(''myProc'', (0, []))]" "(7, [])"] first
  show ?thesis by blast
qed

section \<open>Properties of the animation clip widgets\<close>

lemma build_anim_clip_data_map:
  assumes "build_anim_clip_data fx w = Inr d"
  shows "\<exists>sf ef. py_int fx (start_frame_box w) = Inr sf \<and> py_int fx (end_frame_box w) = Inr ef
     \<and> d = AList.update ''animLayer'' (PStr (anim_layer_value (anim_layer_combo w)))
            (AList.update ''end_frame'' (PInt ef)
              (AList.update ''start_frame'' (PInt sf)
                (AList.update ''enabled'' (PBool (export_checkbox w))
                  (AList.update ''title'' (PStr (clip_name_lineedit w)) (ANIM_CLIP_DATA fx)))))"
  using assms
  by (auto simp: build_anim_clip_data_def Let_def split: sum.splits)

text \<open>
  Claim C5. When both frame boxes hold integers, the record \<open>d\<close> that the update
  handler builds has the title of the name box under \<^verbatim>\<open>title\<close>, the integers of the
  frame boxes under \<^verbatim>\<open>start_frame\<close> and \<^verbatim>\<open>end_frame\<close>, the state of the check box
  under \<^verbatim>\<open>enabled\<close>, and under \<^verbatim>\<open>animLayer\<close> the selected layer, or the empty
  string when the selection is empty or \<^verbatim>\<open>"None"\<close>. The handler writes nothing else:
  every other key has the value of the template \<^verbatim>\<open>ANIM_CLIP_DATA\<close>, and the keys of
  the record are those of the template and these five, so they are exactly these five
  when the template has no other. With an exporter that has a root joint and with an
  export node, the handler sends \<open>d\<close> to \<^verbatim>\<open>update_animation_clip\<close>.
\<close>

theorem update_handler_writes_clip_fields:
  assumes "build_anim_clip_data fx w = Inr d"
  shows "map_of d ''title'' = Some (PStr (clip_name_lineedit w))
    \<and> (\<exists>i. py_int fx (start_frame_box w) = Inr i \<and> map_of d ''start_frame'' = Some (PInt i))
    \<and> (\<exists>i. py_int fx (end_frame_box w) = Inr i \<and> map_of d ''end_frame'' = Some (PInt i))
    \<and> map_of d ''enabled'' = Some (PBool (export_checkbox w))
    \<and> map_of d ''animLayer'' =
        Some (PStr (if anim_layer_combo w = [] \<or> anim_layer_combo w = ''None'' then []
                    else anim_layer_combo w))
    \<and> (\<forall>k. k \<notin> set clip_fields \<longrightarrow> map_of d k = map_of (ANIM_CLIP_DATA fx) k)
    \<and> set (map fst d) = set (map fst (ANIM_CLIP_DATA fx)) \<union> set clip_fields
    \<and> (set (map fst (ANIM_CLIP_DATA fx)) \<subseteq> set clip_fields \<longrightarrow> set (map fst d) = set clip_fields)
    \<and> (fbx_exporter w \<and> \<not> falsy_name (get_root_joint fx h) \<and> FbxExportNode_get fx h \<longrightarrow>
         on_update_anim_clip fx w h =
           (case update_animation_clip fx (get_root_joint fx h) (previous_name w) d h of
              (Inl e, h1) \<Rightarrow> (Inl e, w, h1)
            | (Inr r, h1) \<Rightarrow> (Inr (), w\<lparr>previous_name := clip_name_lineedit w\<rparr>, h1)))"
proof -
  from build_anim_clip_data_map [OF assms] obtain sf ef where
    sf: "py_int fx (start_frame_box w) = Inr sf" and ef: "py_int fx (end_frame_box w) = Inr ef"
    and d: "d = AList.update ''animLayer'' (PStr (anim_layer_value (anim_layer_combo w)))
            (AList.update ''end_frame'' (PInt ef)
              (AList.update ''start_frame'' (PInt sf)
                (AList.update ''enabled'' (PBool (export_checkbox w))
                  (AList.update ''title'' (PStr (clip_name_lineedit w)) (ANIM_CLIP_DATA fx)))))"
    by blast
  have fields: "map_of d ''title'' = Some (PStr (clip_name_lineedit w))"
    "map_of d ''start_frame'' = Some (PInt sf)"
    "map_of d ''end_frame'' = Some (PInt ef)"
    "map_of d ''enabled'' = Some (PBool (export_checkbox w))"
    "map_of d ''animLayer'' = Some (PStr (anim_layer_value (anim_layer_combo w)))"
    by (simp_all add: d update_conv')
  have others: "\<forall>k. k \<notin> set clip_fields \<longrightarrow> map_of d k = map_of (ANIM_CLIP_DATA fx) k"
    by (simp add: d update_conv' clip_fields_def)
  have keys: "set (map fst d) = set (map fst (ANIM_CLIP_DATA fx)) \<union> set clip_fields"
    by (auto simp: d dom_update clip_fields_def)
  have sent: "on_update_anim_clip fx w h =
           (case update_animation_clip fx (get_root_joint fx h) (previous_name w) d h of
              (Inl e, h1) \<Rightarrow> (Inl e, w, h1)
            | (Inr r, h1) \<Rightarrow> (Inr (), w\<lparr>previous_name := clip_name_lineedit w\<rparr>, h1))"
    if "fbx_exporter w" "\<not> falsy_name (get_root_joint fx h)" "FbxExportNode_get fx h"
    using that assms by (simp add: on_update_anim_clip_def Let_def)
  have exact: "set (map fst (ANIM_CLIP_DATA fx)) \<subseteq> set clip_fields \<longrightarrow> set (map fst d) = set clip_fields"
    using keys by blast
  show ?thesis
    using fields others keys exact sent sf ef
    by (simp add: anim_layer_value_def)
qed

theorem update_handler_writes_clip_fields_witness:
  "build_anim_clip_data demo_fbx
     \<lparr>fbx_exporter = True, clip_name = ''walk'', previous_name = ''walk'',
      clip_name_lineedit = ''run'', start_frame_box = ''10'', end_frame_box = ''24'',
      export_checkbox = True, anim_layer_items = [''None'', ''AnimLayer1''],
      anim_layer_combo = ''None''\<rparr> =
     Inr [(''title'', PStr ''run''), (''enabled'', PBool True), (''start_frame'', PInt 10),
          (''end_frame'', PInt 24), (''animLayer'', PStr [])]
   \<and> on_update_anim_clip demo_fbx
     \<lparr>fbx_exporter = True, clip_name = ''walk'', previous_name = ''walk'',
      clip_name_lineedit = ''run'', start_frame_box = ''10'', end_frame_box = ''24'',
      export_checkbox = True, anim_layer_items = [''None'', ''AnimLayer1''],
      anim_layer_combo = ''None''\<rparr> 0 =
     (Inr (),
      \<lparr>fbx_exporter = True, clip_name = ''walk'', previous_name = ''run'',
       clip_name_lineedit = ''run'', start_frame_box = ''10'', end_frame_box = ''24'',
       export_checkbox = True, anim_layer_items = [''None'', ''AnimLayer1''],
       anim_layer_combo = ''None''\<rparr>, 1)"
proof -
  let ?w = "\<lparr>fbx_exporter = True, clip_name = ''walk'', previous_name = ''walk'',
      clip_name_lineedit = ''run'', start_frame_box = ''10'', end_frame_box = ''24'',
      export_checkbox = True, anim_layer_items = [''None'', ''AnimLayer1''],
      anim_layer_combo = ''None''\<rparr>"
  let ?d = "[(''title'', PStr ''run''), (''enabled'', PBool True), (''start_frame'', PInt 10),
          (''end_frame'', PInt 24), (''animLayer'', PStr [])]"
  have built: "build_anim_clip_data demo_fbx ?w = Inr ?d"
    by (simp add: build_anim_clip_data_def demo_fbx_def is_digit_def digits_value_def
        anim_layer_value_def)
  have ready: "fbx_exporter ?w \<and> \<not> falsy_name (get_root_joint demo_fbx 0)
      \<and> FbxExportNode_get demo_fbx 0"
    by (simp add: demo_fbx_def falsy_name_def)
  have send: "update_animation_clip demo_fbx (get_root_joint demo_fbx 0) (previous_name ?w) ?d 0
      = (Inr PNone, 1)"
    by (simp add: demo_fbx_def)
  from update_handler_writes_clip_fields [OF built, of 0] ready
  have "on_update_anim_clip demo_fbx ?w 0 =
           (case update_animation_clip demo_fbx (get_root_joint demo_fbx 0) (previous_name ?w) ?d 0 of
              (Inl e, h1) \<Rightarrow> (Inl e, ?w, h1)
            | (Inr r, h1) \<Rightarrow> (Inr (), ?w\<lparr>previous_name := clip_name_lineedit ?w\<rparr>, h1))"
    by blast
  with send built show ?thesis by simp
qed

text \<open>
  Claim C6. \<^verbatim>\<open>_add_animation_clip\<close> builds a row for the name and appends it to the
  rows of the list; the rows already there are not looked at, so a row of the same name
  does not prevent it. The button handler does the same with the name that the export
  node returns, when the list has a root joint and the node returns a name. (A row is
  built from what the export node holds for the name; the statement is for a row whose
  construction returns.)
\<close>

theorem add_animation_clip_appends:
  "(AnimClipWidget_init env fx h name (list_fbx_exporter lw) = Inr row \<longrightarrow>
      add_animation_clip_row env fx h lw name =
        Inr (lw\<lparr>clips_layout := clips_layout lw @ [row]\<rparr>, row)
      \<and> clip_name row = name)
   \<and> (\<not> falsy_name (list_root_joint lw) \<and> list_fbx_exporter lw
       \<and> add_animation_clip fx (list_root_joint lw) (get_or_create_export_node fx h) = (Some name, h1)
       \<and> name \<noteq> []
       \<and> AnimClipWidget_init env fx h1 name (list_fbx_exporter lw) = Inr row \<longrightarrow>
         on_add_animation_clip_button_clicked env fx lw h =
           (Inr (), lw\<lparr>clips_layout := clips_layout lw @ [row]\<rparr>, h1)
         \<and> clip_name row = name)"
proof -
  have name: "clip_name row = name" if "AnimClipWidget_init env fx hh name p = Inr row" for hh p
    using that
    by (auto simp: AnimClipWidget_init_def refresh_widget_def clear_widget_def Let_def
          split: if_splits sum.splits)
  show ?thesis
    using name
    by (auto simp: add_animation_clip_row_def on_add_animation_clip_button_clicked_def)
qed

theorem add_animation_clip_appends_witness:
  "AnimClipWidget_init demo_env demo_fbx 1 ''walk'' True =
     Inr \<lparr>fbx_exporter = True, clip_name = ''walk'', previous_name = ''walk'',
          clip_name_lineedit = ''walk'', start_frame_box = [], end_frame_box = [],
          export_checkbox = True, anim_layer_items = [''None'', ''AnimLayer1''],
          anim_layer_combo = ''None''\<rparr>
   \<and> map clip_name (clips_layout (fst (snd
        (on_add_animation_clip_button_clicked demo_env demo_fbx
           \<lparr>list_fbx_exporter = True, list_root_joint = Some ''root'',
            clips_layout =
              [\<lparr>fbx_exporter = True, clip_name = ''walk'', previous_name = ''walk'',
                clip_name_lineedit = ''walk'', start_frame_box = [], end_frame_box = [],
                export_checkbox = True, anim_layer_items = [''None'', ''AnimLayer1''],
                anim_layer_combo = ''None''\<rparr>]\<rparr> 0)))) = [''walk'', ''walk'']"
proof -
  let ?row = "\<lparr>fbx_exporter = True, clip_name = ''walk'', previous_name = ''walk'',
          clip_name_lineedit = ''walk'', start_frame_box = [], end_frame_box = [],
          export_checkbox = True, anim_layer_items = [''None'', ''AnimLayer1''],
          anim_layer_combo = ''None''\<rparr>"
  let ?lw = "\<lparr>list_fbx_exporter = True, list_root_joint = Some ''root'', clips_layout = [?row]\<rparr>"
  have row: "AnimClipWidget_init demo_env demo_fbx 1 ''walk'' (list_fbx_exporter ?lw) = Inr ?row"
    by (simp add: AnimClipWidget_init_def refresh_widget_def demo_fbx_def dict_get_def)
  have ready: "\<not> falsy_name (list_root_joint ?lw) \<and> list_fbx_exporter ?lw
      \<and> add_animation_clip demo_fbx (list_root_joint ?lw) (get_or_create_export_node demo_fbx 0)
          = (Some ''walk'', 1)
      \<and> ''walk'' \<noteq> []"
    by (simp add: demo_fbx_def falsy_name_def)
  from add_animation_clip_appends
    [where env = demo_env and fx = demo_fbx and h = 0 and ?h1.0 = 1 and name = "''walk''"
       and lw = ?lw and row = ?row] row ready
  have "on_add_animation_clip_button_clicked demo_env demo_fbx ?lw 0 =
          (Inr (), ?lw\<lparr>clips_layout := clips_layout ?lw @ [?row]\<rparr>, 1)"
    by blast
  with row show ?thesis by simp
qed

end
